theory Spec2Isabelle
  imports Main "HOL-Library.Word" "HOL-Library.Sublist"
begin

section \<open>ubiattach: attaching an MTD device to UBI\<close>

text \<open>
  A shallow embedding of \<^verbatim>\<open>ubi-utils/src/ubiattach.c\<close>. The program is
  \<^verbatim>\<open>parse_opt\<close> followed by a straight line of calls into libubi. The C library
  (\<^verbatim>\<open>getopt_long\<close>, \<^verbatim>\<open>strtoul\<close>, \<^verbatim>\<open>printf\<close>) and libubi are outside the
  file: the calls the program makes and the text it writes are recorded, in
  order, as a list of events, and what libubi answers is a parameter.

  C \<^verbatim>\<open>int\<close> is \<open>32 word\<close> read with \<open>sint\<close>; \<^verbatim>\<open>unsigned long\<close> and
  \<^verbatim>\<open>long long\<close> are \<open>64 word\<close> (the LP64 data model of 64-bit Linux).
\<close>

subsection \<open>Data\<close>

type_synonym c_int = "32 word"
type_synonym c_ulong = "64 word"
type_synonym c_llong = "64 word"

text \<open>\<^verbatim>\<open>struct args\<close>; \<^verbatim>\<open>const char *node\<close> is \<open>None\<close> when \<^verbatim>\<open>NULL\<close>.\<close>

record args =
  devn :: c_int
  mtdn :: c_int
  vidoffs :: c_int
  node :: "string option"

text \<open>
  The structures of \<^verbatim>\<open>libubi.h\<close>, which is not part of the source at hand, with
  the fields that \<^verbatim>\<open>main\<close> reads or writes. The field \<^verbatim>\<open>dev_num\<close> of
  \<^verbatim>\<open>struct ubi_dev_info\<close> is \<open>info_dev_num\<close> here, to keep it apart from the one
  of the request.
\<close>

record ubi_attach_request =
  dev_num :: c_int
  mtd_num :: c_int
  vid_hdr_offset :: c_int

record ubi_info =
  ctrl_major :: c_int

record ubi_dev_info =
  info_dev_num :: c_int
  total_lebs :: c_int
  total_bytes :: c_llong
  avail_lebs :: c_int
  avail_bytes :: c_llong
  leb_size :: c_int

text \<open>\<^verbatim>\<open>libubi_t\<close> is an opaque pointer; \<^verbatim>\<open>NULL\<close> is the address 0.\<close>

type_synonym libubi_t = nat

definition NULL :: libubi_t where
  "NULL = 0"

text \<open>
  What libubi is to the program: the constant \<^verbatim>\<open>UBI_DEV_NUM_AUTO\<close> of its header,
  and for each function the value it returns. A function with an out parameter
  returns the error code together with what it stored there;
  \<^verbatim>\<open>ubi_attach_mtd\<close> may write the assigned device number into the request.
\<close>

record libubi =
  UBI_DEV_NUM_AUTO :: c_int
  libubi_open :: libubi_t
  ubi_get_info :: "libubi_t \<Rightarrow> c_int \<times> ubi_info"
  ubi_attach_mtd ::
    "libubi_t \<Rightarrow> string option \<Rightarrow> ubi_attach_request \<Rightarrow> c_int \<times> ubi_attach_request"
  ubi_get_dev_info1 :: "libubi_t \<Rightarrow> c_int \<Rightarrow> c_int \<times> ubi_dev_info"

text \<open>Arguments of a \<^verbatim>\<open>printf\<close>-like call.\<close>

datatype fmt_arg = Arg_int c_int | Arg_str string

text \<open>
  Everything the program does that is visible outside it. \<open>Errmsg\<close> is the
  \<^verbatim>\<open>errmsg\<close> macro of \<^verbatim>\<open>common.h\<close>, \<open>Print_bytes\<close> is
  \<^verbatim>\<open>ubiutils_print_bytes(bytes, bracket)\<close>.
\<close>

datatype event =
    Errmsg string "fmt_arg list"
  | Fprintf_stderr string "fmt_arg list"
  | Perror string
  | Printf string "fmt_arg list"
  | Print_bytes c_llong c_int
  | Call_libubi_open
  | Call_ubi_get_info libubi_t
  | Call_ubi_attach_mtd libubi_t "string option" ubi_attach_request
  | Call_ubi_get_dev_info1 libubi_t c_int
  | Call_libubi_close libubi_t

text \<open>
  How a run ends: \<^verbatim>\<open>return\<close> from the function, a call of \<^verbatim>\<open>exit\<close>, or
  undefined behaviour (\<^verbatim>\<open>strtoul\<close> applied to a null pointer, which is a
  segmentation fault on Linux).
\<close>

datatype ending = Returned c_int | Exited c_int | Undefined_behaviour

subsection \<open>The C library: \<^verbatim>\<open>strtoul\<close> with base 0\<close>

definition isspace :: "char \<Rightarrow> bool" where
  "isspace c = (c = CHR '' '' \<or> (9 \<le> (of_char c :: nat) \<and> (of_char c :: nat) \<le> 13))"

definition digit_val :: "char \<Rightarrow> nat option" where
  "digit_val c =
     (let n = (of_char c :: nat) in
      if 48 \<le> n \<and> n \<le> 57 then Some (n - 48)
      else if 97 \<le> n \<and> n \<le> 122 then Some (n - 87)
      else if 65 \<le> n \<and> n \<le> 90 then Some (n - 55)
      else None)"

text \<open>The longest run of digits of the base, its value, and what follows it.\<close>

fun digits :: "nat \<Rightarrow> nat \<Rightarrow> string \<Rightarrow> nat \<times> string" where
  "digits b acc [] = (acc, [])"
| "digits b acc (c # cs) =
     (case digit_val c of
        None \<Rightarrow> (acc, c # cs)
      | Some d \<Rightarrow> if d < b then digits b (acc * b + d) cs else (acc, c # cs))"

definition is_digit_of :: "nat \<Rightarrow> char \<Rightarrow> bool" where
  "is_digit_of b c = (case digit_val c of None \<Rightarrow> False | Some d \<Rightarrow> d < b)"

text \<open>An optional sign.\<close>

fun sign :: "string \<Rightarrow> bool \<times> string" where
  "sign [] = (False, [])"
| "sign (c # cs) =
     (if c = CHR ''-'' then (True, cs)
      else if c = CHR ''+'' then (False, cs)
      else (False, c # cs))"

text \<open>
  Base 0 chooses the base from the prefix: \<^verbatim>\<open>0x\<close> or \<^verbatim>\<open>0X\<close> before a
  hexadecimal digit is base 16, another leading \<^verbatim>\<open>0\<close> is base 8, anything else
  base 10.
\<close>

fun base_prefix :: "string \<Rightarrow> nat \<times> string" where
  "base_prefix (z # x # h # cs) =
     (if z = CHR ''0'' \<and> (x = CHR ''x'' \<or> x = CHR ''X'') \<and> is_digit_of 16 h
      then (16, h # cs)
      else if z = CHR ''0'' then (8, z # x # h # cs)
      else (10, z # x # h # cs))"
| "base_prefix cs = (if cs \<noteq> [] \<and> hd cs = CHR ''0'' then (8, cs) else (10, cs))"

definition ULONG_MAX :: nat where
  "ULONG_MAX = 2 ^ 64 - 1"

text \<open>
  \<^verbatim>\<open>strtoul(s, &endp, 0)\<close> as ISO C (C99 to C17) defines it: the value and the
  rest of the string at \<^verbatim>\<open>endp\<close>. White space and a sign are skipped; with no
  digit there is no conversion, the value is 0 and \<^verbatim>\<open>endp\<close> is \<^verbatim>\<open>s\<close> itself. A
  value beyond \<^verbatim>\<open>ULONG_MAX\<close> gives \<^verbatim>\<open>ULONG_MAX\<close>; otherwise a minus sign negates
  in \<^verbatim>\<open>unsigned long\<close>.
\<close>

definition strtoul :: "string \<Rightarrow> c_ulong \<times> string" where
  "strtoul s =
     (let (neg, u) = sign (dropWhile isspace s);
          (b, v) = base_prefix u;
          (n, endp) = digits b 0 v
      in if length endp = length v then (0, s)
         else if ULONG_MAX < n then (word_of_nat ULONG_MAX, endp)
         else if neg then (- word_of_nat n, endp)
         else (word_of_nat n, endp))"

subsection \<open>The program's texts\<close>

definition PROGRAM_VERSION :: string where
  "PROGRAM_VERSION = ''1.0''"

definition PROGRAM_NAME :: string where
  "PROGRAM_NAME = ''ubiattach''"

definition doc :: string where
  "doc = PROGRAM_NAME @ '' version '' @ PROGRAM_VERSION
     @ '' - a tool to attach MTD device to UBI.''"

definition optionsstr :: string where
  "optionsstr =
     ''-d, --devn=<UBI device number>  the number to assign to the newly created UBI device\<newline>''
   @ ''                                (the number is assigned automatically if this is not\<newline>''
   @ ''                                specified\<newline>''
   @ ''-m, --mtdn=<MTD device number>  MTD device number to attach\<newline>''
   @ ''-o, --vid-hdr-offset            VID header offset (do not specify this unless you\<newline>''
   @ ''                                really know what you do and the optimal defaults will\<newline>''
   @ ''                                be used)\<newline>''
   @ ''-h, --help                      print help message\<newline>''
   @ ''-V, --version                   print program version''"

definition usage :: string where
  "usage =
     ''Usage: '' @ PROGRAM_NAME
   @ ''<UBI control device node file name> [-m <MTD device number>] [-d <UBI device number>]\<newline>''
   @ [CHR 0x09, CHR 0x09]
   @ ''[--mtdn=<MTD device number>] [--devn <UBI device number>]\<newline>''
   @ ''Example 1: '' @ PROGRAM_NAME
   @ '' /dev/ubi_ctrl -m 0 - attach MTD device 0 (mtd0) to UBI\<newline>''
   @ ''Example 2: '' @ PROGRAM_NAME
   @ '' /dev/ubi_ctrl -m 0 -d 3 - attach MTD device 0 (mtd0) to UBI and\<newline>''
   @ ''           and create UBI device number 3 (ubi3)''"

definition bad_devn_msg :: string where
  \<open>bad_devn_msg = ''bad UBI device number: "%s"''\<close>

definition bad_mtdn_msg :: string where
  \<open>bad_mtdn_msg = ''bad MTD device number: "%s"''\<close>

definition bad_vidoffs_msg :: string where
  \<open>bad_vidoffs_msg = ''bad VID header offset: "%s"''\<close>

definition no_node_msg :: string where
  "no_node_msg = ''UBI control device name was not specified (use -h for help)''"

definition many_nodes_msg :: string where
  "many_nodes_msg = ''more then one UBI control device specified (use -h for help)''"

definition no_mtdn_msg :: string where
  "no_mtdn_msg = ''MTD device number was not specified (use -h for help)''"

subsection \<open>The C library: \<^verbatim>\<open>getopt_long\<close>\<close>

text \<open>
  What \<^verbatim>\<open>parse_opt\<close> sees of \<^verbatim>\<open>getopt_long\<close>: the keys it returns, one per
  call, each with the value of \<^verbatim>\<open>optarg\<close> (\<open>None\<close> for a null pointer), up to
  the call that returns -1; and the operands \<^verbatim>\<open>argv[optind], ..., argv[argc - 1]\<close>
  left after that call, so that \<^verbatim>\<open>argc - optind\<close> is their number (\<^verbatim>\<open>argv\<close> holds
  at least the program's name).
\<close>

record getopt_run =
  returns :: "(char \<times> string option) list"
  operands :: "string list"

text \<open>\<^verbatim>\<open>struct option\<close>; \<^verbatim>\<open>flag\<close> is \<^verbatim>\<open>NULL\<close> in every entry of the table.\<close>

record long_option =
  name :: string
  has_arg :: nat
  val :: char

definition optstring :: string where
  "optstring = ''m:d:ohV''"

definition long_options :: "long_option list" where
  "long_options =
     [\<lparr>name = ''devn'', has_arg = 1, val = CHR ''d''\<rparr>,
      \<lparr>name = ''mtdn'', has_arg = 1, val = CHR ''m''\<rparr>,
      \<lparr>name = ''vid-hdr-offset'', has_arg = 1, val = CHR ''o''\<rparr>,
      \<lparr>name = ''help'', has_arg = 0, val = CHR ''h''\<rparr>,
      \<lparr>name = ''version'', has_arg = 0, val = CHR ''V''\<rparr>]"

text \<open>
  A short option is a character of the option string other than a colon or
  semicolon; it takes an argument when a colon follows it there.
\<close>

fun short_option :: "string \<Rightarrow> char \<Rightarrow> bool option" where
  "short_option [] c = None"
| "short_option (x # xs) c =
     (if x = c \<and> c \<noteq> CHR '':'' \<and> c \<noteq> CHR '';''
      then Some (xs \<noteq> [] \<and> hd xs = CHR '':'')
      else short_option xs c)"

text \<open>
  A long option is named exactly or by a prefix that fits one entry only (no two
  entries of the table above share a key, so two fitting entries are ambiguous).
\<close>

definition find_long :: "long_option list \<Rightarrow> string \<Rightarrow> long_option option" where
  "find_long tab nm =
     (case filter (\<lambda>e. name e = nm) tab of
        e # _ \<Rightarrow> Some e
      | [] \<Rightarrow> (case filter (\<lambda>e. prefix nm (name e)) tab of [e] \<Rightarrow> Some e | _ \<Rightarrow> None))"

text \<open>
  The scan of glibc's \<^verbatim>\<open>getopt_long\<close> in its default, permuting mode, for an
  option string without a leading \<^verbatim>\<open>+\<close>, \<^verbatim>\<open>-\<close> or \<^verbatim>\<open>:\<close> and without optional
  arguments. The first argument is what is left of a cluster of short options
  in the current element, the second the elements after it. An option without
  an argument leaves \<^verbatim>\<open>optarg\<close> null; an unknown option, an ambiguous name
  and a missing argument give \<^verbatim>\<open>?\<close>; operands are moved behind the options. The
  messages \<^verbatim>\<open>getopt_long\<close> itself writes to \<^verbatim>\<open>stderr\<close> are not recorded.
\<close>

fun getopt_scan ::
  "string \<Rightarrow> long_option list \<Rightarrow> string \<Rightarrow> string list
     \<Rightarrow> (char \<times> string option) list \<times> string list" where
  "getopt_scan os tab (c # cs) ws =
     (case short_option os c of
        None \<Rightarrow> (let (rs, ops) = getopt_scan os tab cs ws in ((CHR ''?'', None) # rs, ops))
      | Some False \<Rightarrow> (let (rs, ops) = getopt_scan os tab cs ws in ((c, None) # rs, ops))
      | Some True \<Rightarrow>
          (if cs \<noteq> [] then
             (let (rs, ops) = getopt_scan os tab [] ws in ((c, Some cs) # rs, ops))
           else
             (case ws of
                [] \<Rightarrow> ([(CHR ''?'', None)], [])
              | a # ws' \<Rightarrow>
                  (let (rs, ops) = getopt_scan os tab [] ws' in ((c, Some a) # rs, ops)))))"
| "getopt_scan os tab [] [] = ([], [])"
| "getopt_scan os tab [] (w # ws) =
     (if w = ''--'' then ([], ws)
      else if take 2 w = ''--'' then
        (let nm = takeWhile (\<lambda>c. c \<noteq> CHR ''='') (drop 2 w);
             eq = dropWhile (\<lambda>c. c \<noteq> CHR ''='') (drop 2 w)
         in case find_long tab nm of
              None \<Rightarrow> (let (rs, ops) = getopt_scan os tab [] ws in ((CHR ''?'', None) # rs, ops))
            | Some e \<Rightarrow>
                (if eq \<noteq> [] then
                   (let (rs, ops) = getopt_scan os tab [] ws
                    in ((if has_arg e = 0 then (CHR ''?'', None) else (val e, Some (tl eq))) # rs, ops))
                 else if has_arg e = 0 then
                   (let (rs, ops) = getopt_scan os tab [] ws in ((val e, None) # rs, ops))
                 else
                   (case ws of
                      [] \<Rightarrow> ([(CHR ''?'', None)], [])
                    | a # ws' \<Rightarrow>
                        (let (rs, ops) = getopt_scan os tab [] ws' in ((val e, Some a) # rs, ops)))))
      else if take 1 w = ''-'' \<and> w \<noteq> ''-'' then getopt_scan os tab (tl w) ws
      else (let (rs, ops) = getopt_scan os tab [] ws in (rs, w # ops)))"

text \<open>The scan starts behind \<^verbatim>\<open>argv[0]\<close>, the program's name.\<close>

definition getopt_long :: "string list \<Rightarrow> string \<Rightarrow> long_option list \<Rightarrow> getopt_run" where
  "getopt_long argv os tab =
     (let (rs, ops) = getopt_scan os tab [] (tl argv) in \<lparr>returns = rs, operands = ops\<rparr>)"

subsection \<open>\<^verbatim>\<open>parse_opt\<close>\<close>

text \<open>
  The body of the \<^verbatim>\<open>switch\<close> for one key: either the function returns or the
  program exits here, with \<^verbatim>\<open>myargs\<close> as it then is and what was written, or
  the loop goes on with \<^verbatim>\<open>myargs\<close> updated. \<^verbatim>\<open>*endp != '\0'\<close> is
  \<open>endp \<noteq> []\<close>; \<^verbatim>\<open>endp == optarg\<close> holds when \<^verbatim>\<open>endp\<close> has the whole argument
  still before it. The conversion of the \<^verbatim>\<open>unsigned long\<close> to \<^verbatim>\<open>int\<close> keeps the
  low 32 bits (as GCC defines it). A null \<^verbatim>\<open>optarg\<close> handed to \<^verbatim>\<open>strtoul\<close> is
  undefined behaviour.
\<close>

definition parse_opt_switch ::
  "args \<Rightarrow> char \<times> string option \<Rightarrow> (ending \<times> args \<times> event list) + args" where
  "parse_opt_switch a r =
     (let (key, optarg) = r in
      if key = CHR ''d'' then
        (case optarg of
           None \<Rightarrow> Inl (Undefined_behaviour, a, [])
         | Some s \<Rightarrow>
             (let (v, endp) = strtoul s; a' = a\<lparr>devn := ucast v\<rparr>
              in if endp \<noteq> [] \<or> length endp = length s \<or> sint (devn a') < 0
                 then Inl (Returned (- 1), a', [Errmsg bad_devn_msg [Arg_str s]])
                 else Inr a'))
      else if key = CHR ''m'' then
        (case optarg of
           None \<Rightarrow> Inl (Undefined_behaviour, a, [])
         | Some s \<Rightarrow>
             (let (v, endp) = strtoul s; a' = a\<lparr>mtdn := ucast v\<rparr>
              in if endp \<noteq> [] \<or> length endp = length s \<or> sint (mtdn a') < 0
                 then Inl (Returned (- 1), a', [Errmsg bad_mtdn_msg [Arg_str s]])
                 else Inr a'))
      else if key = CHR ''o'' then
        (case optarg of
           None \<Rightarrow> Inl (Undefined_behaviour, a, [])
         | Some s \<Rightarrow>
             (let (v, endp) = strtoul s; a' = a\<lparr>vidoffs := ucast v\<rparr>
              in if endp \<noteq> [] \<or> length endp = length s \<or> sint (vidoffs a') \<le> 0
                 then Inl (Returned (- 1), a', [Errmsg bad_vidoffs_msg [Arg_str s]])
                 else Inr a'))
      else if key = CHR ''h'' then
        Inl (Exited 0, a,
          [Fprintf_stderr ''%s\<newline>\<newline>'' [Arg_str doc],
           Fprintf_stderr ''%s\<newline>\<newline>'' [Arg_str usage],
           Fprintf_stderr ''%s\<newline>'' [Arg_str optionsstr]])
      else if key = CHR ''V'' then
        Inl (Exited 0, a, [Fprintf_stderr ''%s\<newline>'' [Arg_str PROGRAM_VERSION]])
      else if key = CHR '':'' then
        Inl (Returned (- 1), a, [Errmsg ''parameter is missing'' []])
      else
        Inl (Exited (- 1), a, [Fprintf_stderr ''Use -h for help\<newline>'' []]))"

text \<open>The \<^verbatim>\<open>while (1)\<close> loop: one round per key, until \<^verbatim>\<open>getopt_long\<close> returns -1.\<close>

fun parse_opt_loop ::
  "args \<Rightarrow> (char \<times> string option) list \<Rightarrow> (ending \<times> args \<times> event list) + args" where
  "parse_opt_loop a [] = Inr a"
| "parse_opt_loop a (r # rs) =
     (case parse_opt_switch a r of
        Inl stop \<Rightarrow> Inl stop
      | Inr a' \<Rightarrow> parse_opt_loop a' rs)"

text \<open>
  \<^verbatim>\<open>parse_opt\<close>: the loop, then the checks on the operands and on \<^verbatim>\<open>-m\<close>. It
  takes \<^verbatim>\<open>myargs\<close> and gives back how it ended, \<^verbatim>\<open>myargs\<close> and what it wrote.
\<close>

definition parse_opt :: "args \<Rightarrow> getopt_run \<Rightarrow> ending \<times> args \<times> event list" where
  "parse_opt a g =
     (case parse_opt_loop a (returns g) of
        Inl stop \<Rightarrow> stop
      | Inr a' \<Rightarrow>
          if length (operands g) = 0 then
            (Returned (- 1), a', [Errmsg no_node_msg []])
          else if length (operands g) \<noteq> 1 then
            (Returned (- 1), a', [Errmsg many_nodes_msg []])
          else if mtdn a' = - 1 then
            (Returned (- 1), a', [Errmsg no_mtdn_msg []])
          else (Returned 0, a'\<lparr>node := Some (hd (operands g))\<rparr>, []))"

subsection \<open>\<^verbatim>\<open>main\<close>\<close>

text \<open>The initial value of the global \<^verbatim>\<open>myargs\<close>.\<close>

definition myargs :: "libubi \<Rightarrow> args" where
  "myargs L = \<lparr>devn = UBI_DEV_NUM_AUTO L, mtdn = - 1, vidoffs = 0, node = None\<rparr>"

text \<open>The label \<^verbatim>\<open>out_libubi\<close>.\<close>

definition out_libubi :: "libubi_t \<Rightarrow> event list \<Rightarrow> ending \<times> event list" where
  "out_libubi h out = (Returned (- 1), out @ [Call_libubi_close h])"

text \<open>The \<^verbatim>\<open>printf\<close> and \<^verbatim>\<open>ubiutils_print_bytes\<close> calls at the end of \<^verbatim>\<open>main\<close>.\<close>

definition print_dev_info :: "ubi_dev_info \<Rightarrow> event list" where
  "print_dev_info d =
     [Printf ''UBI device number %d, total %d LEBs ('' [Arg_int (info_dev_num d), Arg_int (total_lebs d)],
      Print_bytes (total_bytes d) 0,
      Printf ''), available %d LEBs ('' [Arg_int (avail_lebs d)],
      Print_bytes (avail_bytes d) 0,
      Printf ''), LEB size '' [],
      Print_bytes (scast (leb_size d)) 1,
      Printf ''\<newline>'' []]"

text \<open>
  \<^verbatim>\<open>main\<close>, given what libubi answers and what \<^verbatim>\<open>getopt_long\<close> returns: how
  the program ends and the events of the run in order.
\<close>

definition main :: "libubi \<Rightarrow> getopt_run \<Rightarrow> ending \<times> event list" where
  "main L g =
     (case parse_opt (myargs L) g of
        (Exited s, a, out) \<Rightarrow> (Exited s, out)
      | (Undefined_behaviour, a, out) \<Rightarrow> (Undefined_behaviour, out)
      | (Returned err, a, out) \<Rightarrow>
          if err \<noteq> 0 then (Returned (- 1), out)
          else
            (let h = libubi_open L; out = out @ [Call_libubi_open] in
             if h = NULL then
               (Returned (- 1), out @ [Errmsg ''cannot open libubi'' [], Perror ''libubi_open''])
             else
               (let (err, info) = ubi_get_info L h; out = out @ [Call_ubi_get_info h] in
                if err \<noteq> 0 then
                  out_libubi h
                    (out @ [Errmsg ''cannot get UBI information'' [], Perror ''ubi_get_info''])
                else if ctrl_major info = - 1 then
                  out_libubi h
                    (out @ [Errmsg ''MTD attach/detach feature is not supported by your kernel'' []])
                else
                  (let req = \<lparr>dev_num = devn a, mtd_num = mtdn a, vid_hdr_offset = vidoffs a\<rparr>;
                       (err, req') = ubi_attach_mtd L h (node a) req;
                       out = out @ [Call_ubi_attach_mtd h (node a) req]
                   in
                   if err \<noteq> 0 then
                     out_libubi h
                       (out @ [Errmsg ''cannot attach mtd%d'' [Arg_int (mtdn a)], Perror ''ubi_attach_mtd''])
                   else
                     (let (err, d) = ubi_get_dev_info1 L h (dev_num req');
                          out = out @ [Call_ubi_get_dev_info1 h (dev_num req')]
                      in
                      if err \<noteq> 0 then
                        out_libubi h
                          (out @ [Errmsg ''cannot get information about newly created UBI device'' [],
                                  Perror ''ubi_get_dev_info1''])
                      else
                        (Returned 0, out @ print_dev_info d @ [Call_libubi_close h]))))))"

text \<open>The program started on a command line (\<^verbatim>\<open>argv[0]\<close> included).\<close>

definition ubiattach :: "libubi \<Rightarrow> string list \<Rightarrow> ending \<times> event list" where
  "ubiattach L argv = main L (getopt_long argv optstring long_options)"

section \<open>Notions for stating the properties\<close>

subsection \<open>The steps of a run\<close>

text \<open>The four calls into libubi that make up the main line of the program.\<close>

datatype step = Open | Get_info | Attach | Get_dev_info

fun step_of :: "event \<Rightarrow> step option" where
  "step_of Call_libubi_open = Some Open"
| "step_of (Call_ubi_get_info h) = Some Get_info"
| "step_of (Call_ubi_attach_mtd h n r) = Some Attach"
| "step_of (Call_ubi_get_dev_info1 h n) = Some Get_dev_info"
| "step_of e = None"

definition steps :: "event list \<Rightarrow> step list" where
  "steps tr = List.map_filter step_of tr"

text \<open>Kinds of events: text on \<^verbatim>\<open>stderr\<close>, text on \<^verbatim>\<open>stdout\<close>, and single calls.\<close>

fun is_stderr :: "event \<Rightarrow> bool" where
  "is_stderr (Errmsg f as) = True"
| "is_stderr (Fprintf_stderr f as) = True"
| "is_stderr (Perror s) = True"
| "is_stderr e = False"

fun is_print :: "event \<Rightarrow> bool" where
  "is_print (Printf f as) = True"
| "is_print (Print_bytes n b) = True"
| "is_print e = False"

fun is_open :: "event \<Rightarrow> bool" where
  "is_open Call_libubi_open = True"
| "is_open e = False"

fun is_query :: "event \<Rightarrow> bool" where
  "is_query (Call_ubi_get_dev_info1 h n) = True"
| "is_query e = False"

fun is_close :: "event \<Rightarrow> bool" where
  "is_close (Call_libubi_close h) = True"
| "is_close e = False"

subsection \<open>What libubi answers along a run\<close>

text \<open>
  \<^verbatim>\<open>parse_opt\<close> returned 0; \<^verbatim>\<open>myargs\<close> after it; the request \<^verbatim>\<open>main\<close> builds from
  \<^verbatim>\<open>myargs\<close>; the answer of \<^verbatim>\<open>ubi_attach_mtd\<close> to that request; and the answer
  of \<^verbatim>\<open>ubi_get_dev_info1\<close> for the device number the request then holds.
\<close>

definition parse_ok :: "libubi \<Rightarrow> getopt_run \<Rightarrow> bool" where
  "parse_ok L g = (fst (parse_opt (myargs L) g) = Returned 0)"

definition parsed :: "libubi \<Rightarrow> getopt_run \<Rightarrow> args" where
  "parsed L g = fst (snd (parse_opt (myargs L) g))"

definition request :: "libubi \<Rightarrow> getopt_run \<Rightarrow> ubi_attach_request" where
  "request L g =
     \<lparr>dev_num = devn (parsed L g), mtd_num = mtdn (parsed L g),
      vid_hdr_offset = vidoffs (parsed L g)\<rparr>"

definition attached :: "libubi \<Rightarrow> getopt_run \<Rightarrow> c_int \<times> ubi_attach_request" where
  "attached L g = ubi_attach_mtd L (libubi_open L) (node (parsed L g)) (request L g)"

definition queried :: "libubi \<Rightarrow> getopt_run \<Rightarrow> c_int \<times> ubi_dev_info" where
  "queried L g = ubi_get_dev_info1 L (libubi_open L) (dev_num (snd (attached L g)))"

subsection \<open>The value of an option\<close>

text \<open>
  The argument of the last occurrence of an option among the keys
  \<^verbatim>\<open>getopt_long\<close> returned, and the \<^verbatim>\<open>int\<close> that \<^verbatim>\<open>parse_opt\<close> stores for an
  argument: the low 32 bits of what \<^verbatim>\<open>strtoul\<close> reads.
\<close>

fun option_value :: "char \<Rightarrow> (char \<times> string option) list \<Rightarrow> string option" where
  "option_value k [] = None"
| "option_value k (r # rs) =
     (case option_value k rs of
        Some s \<Rightarrow> Some s
      | None \<Rightarrow> if fst r = k then snd r else None)"

definition int_value :: "string \<Rightarrow> c_int" where
  "int_value s = ucast (fst (strtoul s))"

text \<open>\<^verbatim>\<open>strtoul\<close> has read the argument up to its end, and has read something.\<close>

definition whole_number :: "string \<Rightarrow> bool" where
  "whole_number s = (snd (strtoul s) = [] \<and> length (snd (strtoul s)) \<noteq> length s)"

text \<open>A decimal numeral and the number it denotes.\<close>

definition is_decimal :: "char \<Rightarrow> bool" where
  "is_decimal c = (48 \<le> (of_char c :: nat) \<and> (of_char c :: nat) \<le> 57)"

definition decimal_value :: "string \<Rightarrow> nat" where
  "decimal_value ds = foldl (\<lambda>n c. n * 10 + (of_char c - 48)) 0 ds"

subsection \<open>Example runs\<close>

text \<open>
  A libubi whose handle is \<open>h\<close>, whose three functions return the given error
  codes, which reports the given major number of the control device, assigns
  device number 3 when asked for \<^verbatim>\<open>UBI_DEV_NUM_AUTO\<close> (which \<^verbatim>\<open>libubi.h\<close>
  defines as -1), and describes a device of 1000 erase blocks.
\<close>

definition example_libubi :: "libubi_t \<Rightarrow> c_int \<Rightarrow> c_int \<Rightarrow> c_int \<Rightarrow> c_int \<Rightarrow> libubi" where
  "example_libubi h e_info major e_attach e_query =
     \<lparr>UBI_DEV_NUM_AUTO = - 1,
      libubi_open = h,
      ubi_get_info = (\<lambda>_. (e_info, \<lparr>ctrl_major = major\<rparr>)),
      ubi_attach_mtd = (\<lambda>_ _ r. (e_attach, if dev_num r = - 1 then r\<lparr>dev_num := 3\<rparr> else r)),
      ubi_get_dev_info1 = (\<lambda>_ n. (e_query,
        \<lparr>info_dev_num = n, total_lebs = 1000, total_bytes = 129024000,
         avail_lebs = 996, avail_bytes = 128507904, leb_size = 129024\<rparr>))\<rparr>"

definition example_args :: args where
  "example_args = myargs (example_libubi 1 0 250 0 0)"

text \<open>The command lines \<^verbatim>\<open>ubiattach /dev/ubi_ctrl -m 0\<close> and \<^verbatim>\<open>ubiattach -h\<close>.\<close>

definition example_run :: getopt_run where
  "example_run = getopt_long [''ubiattach'', ''/dev/ubi_ctrl'', ''-m'', ''0''] optstring long_options"

definition help_run :: getopt_run where
  "help_run = getopt_long [''ubiattach'', ''-h''] optstring long_options"

text \<open>
  The keys of \<^verbatim>\<open>ubiattach /dev/ubi_ctrl -m 0 -d 3 --vid-hdr-offset=2048\<close>.
\<close>

definition full_run :: getopt_run where
  "full_run =
     \<lparr>returns = [(CHR ''m'', Some ''0''), (CHR ''d'', Some ''3''), (CHR ''o'', Some ''2048'')],
      operands = [''/dev/ubi_ctrl'']\<rparr>"

subsection \<open>How an option ends the program\<close>

text \<open>
  What the \<^verbatim>\<open>switch\<close> writes before \<^verbatim>\<open>exit\<close> for \<^verbatim>\<open>-h\<close>, for \<^verbatim>\<open>-V\<close> and in its
  \<^verbatim>\<open>default\<close> branch, and the keys that take the \<^verbatim>\<open>default\<close> branch: all but
  those of the other cases, among them the \<^verbatim>\<open>?\<close> that \<^verbatim>\<open>getopt_long\<close> returns for an
  option it does not recognise.
\<close>

definition help_events :: "event list" where
  "help_events =
     [Fprintf_stderr ''%s\<newline>\<newline>'' [Arg_str doc],
      Fprintf_stderr ''%s\<newline>\<newline>'' [Arg_str usage],
      Fprintf_stderr ''%s\<newline>'' [Arg_str optionsstr]]"

definition version_events :: "event list" where
  "version_events = [Fprintf_stderr ''%s\<newline>'' [Arg_str PROGRAM_VERSION]]"

definition unknown_events :: "event list" where
  "unknown_events = [Fprintf_stderr ''Use -h for help\<newline>'' []]"

definition unknown_key :: "char \<Rightarrow> bool" where
  "unknown_key key =
     (key \<noteq> CHR ''d'' \<and> key \<noteq> CHR ''m'' \<and> key \<noteq> CHR ''o'' \<and> key \<noteq> CHR ''h''
      \<and> key \<noteq> CHR ''V'' \<and> key \<noteq> CHR '':'')"

section \<open>Properties\<close>

subsection \<open>\<^verbatim>\<open>strtoul\<close>\<close>

text \<open>
  \<^verbatim>\<open>endp\<close> points into the argument, so it is the argument itself exactly when
  nothing was converted; and a decimal numeral below \<open>2\<^sup>3\<^sup>1\<close> is read in full, as
  the number it denotes.
\<close>

lemma digits_suffix: "suffix (snd (digits b acc cs)) cs"
proof (induction cs arbitrary: acc)
  case Nil
  show ?case by simp
next
  case (Cons c cs)
  show ?case
  proof (cases "digit_val c")
    case None
    then show ?thesis by simp
  next
    case (Some d)
    with Cons [of "acc * b + d"] show ?thesis
      by (simp add: suffix_Cons)
  qed
qed

lemma sign_suffix: "suffix (snd (sign cs)) cs"
  by (cases cs) (simp_all add: suffix_Cons)

lemma base_prefix_suffix: "suffix (snd (base_prefix cs)) cs"
  by (induction cs rule: base_prefix.induct) (simp_all add: suffix_Cons)

lemma strtoul_suffix: "suffix (snd (strtoul s)) s"
proof -
  obtain neg u where u: "sign (dropWhile isspace s) = (neg, u)" by force
  obtain b v where v: "base_prefix u = (b, v)" by force
  obtain n endp where e: "digits b 0 v = (n, endp)" by force
  have "suffix endp v" using digits_suffix [of b 0 v] e by simp
  also have "suffix v u" using base_prefix_suffix [of u] v by simp
  also have "suffix u (dropWhile isspace s)" using sign_suffix [of "dropWhile isspace s"] u by simp
  also have "suffix (dropWhile isspace s) s" by (rule suffix_dropWhile)
  finally have "suffix endp s" .
  then show ?thesis
    by (simp add: strtoul_def u v e)
qed

lemma strtoul_no_conversion:
  "length (snd (strtoul s)) = length s \<longleftrightarrow> snd (strtoul s) = s"
proof
  assume len: "length (snd (strtoul s)) = length s"
  from strtoul_suffix [of s] obtain zs where zs: "s = zs @ snd (strtoul s)"
    by (auto simp: suffix_def)
  then have "length s = length zs + length (snd (strtoul s))"
    by (metis length_append)
  with len have "zs = []" by simp
  with zs show "snd (strtoul s) = s" by simp
next
  assume "snd (strtoul s) = s"
  then show "length (snd (strtoul s)) = length s" by simp
qed

lemma digits_decimal:
  "\<forall>c\<in>set ds. is_decimal c \<Longrightarrow>
     digits 10 acc ds = (foldl (\<lambda>n c. n * 10 + (of_char c - 48)) acc ds, [])"
proof (induction ds arbitrary: acc)
  case Nil
  show ?case by simp
next
  case (Cons c ds)
  from Cons.prems have c: "is_decimal c" and ds: "\<forall>c\<in>set ds. is_decimal c" by simp_all
  from c have dv: "digit_val c = Some (of_char c - 48)" and lt: "(of_char c :: nat) - 48 < 10"
    by (auto simp: is_decimal_def digit_val_def)
  show ?case
    using Cons.IH [OF ds, of "acc * 10 + (of_char c - 48)"] dv lt by simp
qed

lemma decimal_not_space: "is_decimal c \<Longrightarrow> \<not> isspace c"
  by (auto simp: is_decimal_def isspace_def)

lemma decimal_not_sign: "is_decimal c \<Longrightarrow> c \<noteq> CHR ''-'' \<and> c \<noteq> CHR ''+''"
  by (auto simp: is_decimal_def)

lemma base_prefix_decimal: "ds \<noteq> [] \<Longrightarrow> hd ds \<noteq> CHR ''0'' \<Longrightarrow> base_prefix ds = (10, ds)"
  by (induction ds rule: base_prefix.induct) auto

lemma strtoul_decimal:
  assumes "ds \<noteq> []" and "hd ds \<noteq> CHR ''0''" and "\<forall>c\<in>set ds. is_decimal c"
    and "decimal_value ds \<le> ULONG_MAX"
  shows "strtoul ds = (word_of_nat (decimal_value ds), [])"
proof -
  obtain c cs where ds: "ds = c # cs" using assms(1) by (cases ds) auto
  with assms(3) have c: "is_decimal c" by simp
  have 1: "dropWhile isspace ds = ds"
    using decimal_not_space [OF c] by (simp add: ds)
  have 2: "sign ds = (False, ds)"
    using decimal_not_sign [OF c] by (simp add: ds)
  have 3: "base_prefix ds = (10, ds)"
    using assms(1,2) by (rule base_prefix_decimal)
  have 4: "digits 10 0 ds = (decimal_value ds, [])"
    using digits_decimal [OF assms(3), of 0] by (simp add: decimal_value_def)
  show ?thesis
    using assms(1,4) by (simp add: strtoul_def 1 2 3 4)
qed

lemma ucast_nat:
  "n < 2 ^ 31 \<Longrightarrow> (ucast (word_of_nat n :: 64 word) :: 32 word) = word_of_nat n"
  by (simp add: word_eq_iff_unsigned [where ?'a = nat] unsigned_ucast_eq unsigned_of_nat
      take_bit_nat_eq_self)

lemma sint_nat: "n < 2 ^ 31 \<Longrightarrow> sint (word_of_nat n :: 32 word) = int n"
  by (simp add: signed_of_nat signed_take_bit_int_eq_self)

lemma int_value_decimal:
  assumes "ds \<noteq> []" and "hd ds \<noteq> CHR ''0''" and "\<forall>c\<in>set ds. is_decimal c"
    and "decimal_value ds < 2 ^ 31"
  shows "snd (strtoul ds) = [] \<and> sint (int_value ds) = int (decimal_value ds)"
proof -
  have "decimal_value ds \<le> ULONG_MAX" using assms(4) by (simp add: ULONG_MAX_def)
  from strtoul_decimal [OF assms(1-3) this]
  have s: "strtoul ds = (word_of_nat (decimal_value ds), [])" .
  have "int_value ds = (word_of_nat (decimal_value ds) :: c_int)"
    by (simp add: int_value_def s ucast_nat [OF assms(4)])
  with sint_nat [OF assms(4)] s show ?thesis by simp
qed

lemmas strtoul_eval = strtoul_def isspace_def digit_val_def is_digit_of_def ULONG_MAX_def

lemma strtoul_0: "strtoul ''0'' = (0, [])"
  by (simp add: strtoul_eval)

lemma strtoul_examples:
  "strtoul ''12abc'' = (12, ''abc'')"
  "strtoul '''' = (0, [])"
  "strtoul ''-5'' = (- 5, [])"
  "strtoul ''3'' = (3, [])"
  by (simp_all add: strtoul_eval)

subsection \<open>\<^verbatim>\<open>parse_opt\<close>\<close>

text \<open>
  What one round of the loop can do, and what follows for the loop by induction
  on the keys: it only writes to \<^verbatim>\<open>stderr\<close>, it never returns 0 from inside,
  and when it runs to its end every field of \<^verbatim>\<open>myargs\<close> holds the value of the
  last option that sets it.
\<close>

lemma parse_opt_switch_not_0: "parse_opt_switch a r = Inl (e, a', out) \<Longrightarrow> e \<noteq> Returned 0"
  by (auto simp: parse_opt_switch_def Let_def split: prod.splits option.splits if_splits)

lemma parse_opt_loop_not_0: "parse_opt_loop a rs = Inl (e, a', out) \<Longrightarrow> e \<noteq> Returned 0"
proof (induction rs arbitrary: a)
  case Nil
  then show ?case by simp
next
  case (Cons r rs)
  then show ?case
    by (auto split: sum.splits dest: parse_opt_switch_not_0)
qed

lemma parse_opt_ok_out: "fst (parse_opt a g) = Returned 0 \<Longrightarrow> snd (snd (parse_opt a g)) = []"
  by (auto simp: parse_opt_def split: sum.splits prod.splits if_splits dest: parse_opt_loop_not_0)

lemma parse_opt_switch_Inr:
  assumes "parse_opt_switch a (key, arg) = Inr a'"
  shows "\<exists>s. arg = Some s \<and> whole_number s \<and>
    (key = CHR ''d'' \<and> a' = a\<lparr>devn := int_value s\<rparr> \<and> 0 \<le> sint (int_value s)
     \<or> key = CHR ''m'' \<and> a' = a\<lparr>mtdn := int_value s\<rparr> \<and> 0 \<le> sint (int_value s)
     \<or> key = CHR ''o'' \<and> a' = a\<lparr>vidoffs := int_value s\<rparr> \<and> 0 < sint (int_value s))"
  using assms
  by (auto simp: parse_opt_switch_def Let_def int_value_def whole_number_def
      split: prod.splits option.splits if_splits)

lemma parse_opt_switch_Returned:
  assumes "parse_opt_switch a r = Inl (Returned v, a', out)"
  shows "v = - 1 \<and> (\<exists>msg as. out = [Errmsg msg as])"
  using assms
  by (auto simp: parse_opt_switch_def Let_def split: prod.splits option.splits if_splits)

lemma parse_opt_loop_Returned:
  "parse_opt_loop a rs = Inl (Returned v, a', out) \<Longrightarrow> v = - 1 \<and> (\<exists>msg as. out = [Errmsg msg as])"
proof (induction rs arbitrary: a)
  case Nil
  then show ?case by simp
next
  case (Cons r rs)
  show ?case
  proof (cases "parse_opt_switch a r")
    case (Inl stop)
    with Cons.prems show ?thesis
      using parse_opt_switch_Returned [of a r v a' out] by simp
  next
    case (Inr a1)
    with Cons show ?thesis by simp
  qed
qed

lemma parse_opt_loop_append:
  "parse_opt_loop a pre = Inr a1 \<Longrightarrow> parse_opt_loop a (pre @ rs) = parse_opt_loop a1 rs"
  by (induction pre arbitrary: a) (auto split: sum.splits)

lemma parse_opt_loop_values:
  "parse_opt_loop a rs = Inr a' \<Longrightarrow>
     devn a' = (case option_value CHR ''d'' rs of None \<Rightarrow> devn a | Some s \<Rightarrow> int_value s)
   \<and> mtdn a' = (case option_value CHR ''m'' rs of None \<Rightarrow> mtdn a | Some s \<Rightarrow> int_value s)
   \<and> vidoffs a' = (case option_value CHR ''o'' rs of None \<Rightarrow> vidoffs a | Some s \<Rightarrow> int_value s)
   \<and> node a' = node a"
proof (induction rs arbitrary: a)
  case Nil
  then show ?case by simp
next
  case (Cons r rs)
  obtain key arg where r: "r = (key, arg)" by (cases r)
  from Cons.prems obtain a1 where sw: "parse_opt_switch a r = Inr a1"
    and lp: "parse_opt_loop a1 rs = Inr a'"
    by (auto split: sum.splits)
  from parse_opt_switch_Inr [OF sw [unfolded r]] Cons.IH [OF lp] r
  show ?case
    by (auto split: option.splits)
qed

lemma parse_opt_loop_accepted:
  "parse_opt_loop a rs = Inr a' \<Longrightarrow> (key, arg) \<in> set rs \<Longrightarrow>
     \<exists>s. arg = Some s \<and> whole_number s \<and>
       (key = CHR ''d'' \<and> 0 \<le> sint (int_value s)
        \<or> key = CHR ''m'' \<and> 0 \<le> sint (int_value s)
        \<or> key = CHR ''o'' \<and> 0 < sint (int_value s))"
proof (induction rs arbitrary: a)
  case Nil
  then show ?case by simp
next
  case (Cons r rs)
  from Cons.prems obtain a1 where sw: "parse_opt_switch a r = Inr a1"
    and lp: "parse_opt_loop a1 rs = Inr a'"
    by (auto split: sum.splits)
  show ?case
  proof (cases "(key, arg) = r")
    case True
    with parse_opt_switch_Inr [of a key arg a1] sw show ?thesis by blast
  next
    case False
    with Cons.prems(2) have "(key, arg) \<in> set rs" by auto
    from Cons.IH [OF lp this] show ?thesis .
  qed
qed

lemma option_value_absent: "k \<notin> fst ` set rs \<Longrightarrow> option_value k rs = None"
  by (induction rs) auto

lemma parse_opt_loop_mtdn:
  assumes "parse_opt_loop a rs = Inr a'" and "mtdn a = - 1"
  shows "mtdn a' = - 1 \<longleftrightarrow> option_value CHR ''m'' rs = None"
proof (cases "option_value CHR ''m'' rs")
  case None
  with parse_opt_loop_values [OF assms(1)] assms(2) show ?thesis by simp
next
  case (Some s)
  have "\<exists>arg. (CHR ''m'', arg) \<in> set rs \<and> arg = Some s"
    using Some by (induction rs) (auto split: option.splits if_splits)
  then have "0 \<le> sint (int_value s)"
    using parse_opt_loop_accepted [OF assms(1)] by fastforce
  then have "int_value s \<noteq> - 1" by auto
  with parse_opt_loop_values [OF assms(1)] Some show ?thesis by simp
qed

lemma parse_opt_switch_stderr:
  "parse_opt_switch a r = Inl (e, a', out) \<Longrightarrow> \<forall>ev\<in>set out. is_stderr ev"
  by (auto simp: parse_opt_switch_def Let_def split: prod.splits option.splits if_splits)

lemma parse_opt_loop_stderr:
  "parse_opt_loop a rs = Inl (e, a', out) \<Longrightarrow> \<forall>ev\<in>set out. is_stderr ev"
proof (induction rs arbitrary: a)
  case Nil
  then show ?case by simp
next
  case (Cons r rs)
  then show ?case
    by (auto split: sum.splits dest: parse_opt_switch_stderr)
qed

lemma parse_opt_stderr: "\<forall>ev\<in>set (snd (snd (parse_opt a g))). is_stderr ev"
  by (auto simp: parse_opt_def split: sum.splits prod.splits dest: parse_opt_loop_stderr)

lemma parse_opt_switch_device_number:
  assumes "key = CHR ''d'' \<or> key = CHR ''m''"
  shows "parse_opt_switch a (key, Some s) =
    (if snd (strtoul s) \<noteq> [] \<or> length (snd (strtoul s)) = length s \<or> sint (int_value s) < 0
     then Inl (Returned (- 1),
       (if key = CHR ''d'' then a\<lparr>devn := int_value s\<rparr> else a\<lparr>mtdn := int_value s\<rparr>),
       [Errmsg (if key = CHR ''d'' then bad_devn_msg else bad_mtdn_msg) [Arg_str s]])
     else Inr (if key = CHR ''d'' then a\<lparr>devn := int_value s\<rparr> else a\<lparr>mtdn := int_value s\<rparr>))"
  using assms
  by (auto simp: parse_opt_switch_def Let_def int_value_def split: prod.splits)

lemma parse_opt_Returned_0:
  assumes "fst (parse_opt a g) = Returned 0"
  shows "\<exists>a'. parse_opt_loop a (returns g) = Inr a'"
  using assms
  by (auto simp: parse_opt_def split: sum.splits prod.splits dest: parse_opt_loop_not_0)

lemma parse_opt_Returned:
  assumes "fst (parse_opt a g) = Returned r" and "r \<noteq> 0"
  shows "r = - 1 \<and> (\<exists>msg as. snd (snd (parse_opt a g)) = [Errmsg msg as])"
  using assms
  by (auto simp: parse_opt_def split: sum.splits prod.splits if_splits
      dest: parse_opt_loop_Returned)

subsection \<open>\<^verbatim>\<open>main\<close>\<close>

text \<open>
  After a successful \<^verbatim>\<open>parse_opt\<close> the run is one of six, told apart by what
  libubi answers; after a failed one \<^verbatim>\<open>main\<close> adds nothing to what
  \<^verbatim>\<open>parse_opt\<close> wrote.
\<close>

lemma main_ok:
  assumes "parse_ok L g"
  shows "main L g =
    (if libubi_open L = NULL then
       (Returned (- 1), [Call_libubi_open, Errmsg ''cannot open libubi'' [], Perror ''libubi_open''])
     else if fst (ubi_get_info L (libubi_open L)) \<noteq> 0 then
       (Returned (- 1),
        [Call_libubi_open, Call_ubi_get_info (libubi_open L),
         Errmsg ''cannot get UBI information'' [], Perror ''ubi_get_info'',
         Call_libubi_close (libubi_open L)])
     else if ctrl_major (snd (ubi_get_info L (libubi_open L))) = - 1 then
       (Returned (- 1),
        [Call_libubi_open, Call_ubi_get_info (libubi_open L),
         Errmsg ''MTD attach/detach feature is not supported by your kernel'' [],
         Call_libubi_close (libubi_open L)])
     else if fst (attached L g) \<noteq> 0 then
       (Returned (- 1),
        [Call_libubi_open, Call_ubi_get_info (libubi_open L),
         Call_ubi_attach_mtd (libubi_open L) (node (parsed L g)) (request L g),
         Errmsg ''cannot attach mtd%d'' [Arg_int (mtdn (parsed L g))], Perror ''ubi_attach_mtd'',
         Call_libubi_close (libubi_open L)])
     else if fst (queried L g) \<noteq> 0 then
       (Returned (- 1),
        [Call_libubi_open, Call_ubi_get_info (libubi_open L),
         Call_ubi_attach_mtd (libubi_open L) (node (parsed L g)) (request L g),
         Call_ubi_get_dev_info1 (libubi_open L) (dev_num (snd (attached L g))),
         Errmsg ''cannot get information about newly created UBI device'' [],
         Perror ''ubi_get_dev_info1'',
         Call_libubi_close (libubi_open L)])
     else
       (Returned 0,
        [Call_libubi_open, Call_ubi_get_info (libubi_open L),
         Call_ubi_attach_mtd (libubi_open L) (node (parsed L g)) (request L g),
         Call_ubi_get_dev_info1 (libubi_open L) (dev_num (snd (attached L g)))]
        @ print_dev_info (snd (queried L g)) @ [Call_libubi_close (libubi_open L)]))"
proof -
  obtain a where p: "parse_opt (myargs L) g = (Returned 0, a, [])"
    using assms parse_opt_ok_out [of "myargs L" g]
    by (cases "parse_opt (myargs L) g") (auto simp: parse_ok_def)
  then have a: "parsed L g = a" by (simp add: parsed_def)
  show ?thesis
    unfolding main_def p
    by (simp add: Let_def out_libubi_def a [symmetric] queried_def attached_def request_def
        split: prod.splits)
qed

lemma main_not_ok:
  assumes "\<not> parse_ok L g"
  shows "snd (main L g) = snd (snd (parse_opt (myargs L) g))"
    and "fst (main L g) =
      (case fst (parse_opt (myargs L) g) of Returned r \<Rightarrow> Returned (- 1) | e \<Rightarrow> e)"
  using assms
  by (auto simp: main_def parse_ok_def split: prod.splits ending.splits)

lemma stderr_only:
  "\<forall>e\<in>set out. is_stderr e \<Longrightarrow>
     steps out = [] \<and> filter is_print out = [] \<and> filter is_close out = []"
proof (induction out)
  case Nil
  show ?case by (simp add: steps_def)
next
  case (Cons e out)
  then show ?case by (cases e) (simp_all add: steps_def)
qed

lemma main_not_ok_quiet:
  assumes "\<not> parse_ok L g"
  shows "steps (snd (main L g)) = []" and "filter is_print (snd (main L g)) = []"
    and "filter is_close (snd (main L g)) = []" and "fst (main L g) \<noteq> Returned 0"
    and "\<forall>ev\<in>set (snd (main L g)). is_stderr ev"
proof -
  have q: "\<forall>ev\<in>set (snd (main L g)). is_stderr ev"
    using main_not_ok(1) [OF assms] parse_opt_stderr [of "myargs L" g] by simp
  then show "\<forall>ev\<in>set (snd (main L g)). is_stderr ev" .
  from stderr_only [OF q]
  show "steps (snd (main L g)) = []" and "filter is_print (snd (main L g)) = []"
    and "filter is_close (snd (main L g)) = []" by simp_all
  show "fst (main L g) \<noteq> Returned 0"
    using main_not_ok(2) [OF assms] by (simp split: ending.splits)
qed

lemma attach_in_main:
  assumes "Call_ubi_attach_mtd h nd req \<in> set (snd (main L g))"
  shows "parse_ok L g \<and> h = libubi_open L \<and> nd = node (parsed L g) \<and> req = request L g"
proof (cases "parse_ok L g")
  case False
  from main_not_ok_quiet(5) [OF False] assms show ?thesis by fastforce
next
  case True
  from assms show ?thesis
    unfolding main_ok [OF True]
    by (auto simp: True print_dev_info_def split: if_splits)
qed

lemma open_in_main:
  assumes "Call_libubi_open \<in> set (snd (main L g))"
  shows "parse_ok L g"
proof (rule ccontr)
  assume "\<not> parse_ok L g"
  from main_not_ok_quiet(5) [OF this] assms show False by fastforce
qed

lemma parse_ok_loop:
  assumes "parse_ok L g"
  shows "\<exists>a'. parse_opt_loop (myargs L) (returns g) = Inr a'
     \<and> parsed L g = a'\<lparr>node := Some (hd (operands g))\<rparr>
     \<and> length (operands g) = 1 \<and> mtdn a' \<noteq> - 1"
  using assms
  by (auto simp: parse_ok_def parsed_def parse_opt_def split: sum.splits prod.splits if_splits
      dest: parse_opt_loop_not_0)

lemma not_parse_ok:
  assumes "length (operands g) \<noteq> 1 \<or> CHR ''m'' \<notin> fst ` set (returns g)"
  shows "\<not> parse_ok L g"
proof
  assume "parse_ok L g"
  from parse_ok_loop [OF this] obtain a' where
    lp: "parse_opt_loop (myargs L) (returns g) = Inr a'"
    and len: "length (operands g) = 1" and m: "mtdn a' \<noteq> - 1" by blast
  from assms len have "CHR ''m'' \<notin> fst ` set (returns g)" by simp
  then have "option_value CHR ''m'' (returns g) = None" by (rule option_value_absent)
  moreover have "mtdn (myargs L) = - 1" by (simp add: myargs_def)
  ultimately have "mtdn a' = - 1" using parse_opt_loop_mtdn [OF lp] by simp
  with m show False by contradiction
qed

subsection \<open>The example runs, evaluated\<close>

lemmas getopt_eval = getopt_long_def optstring_def long_options_def find_long_def

lemma example_run_eq:
  "example_run = \<lparr>returns = [(CHR ''m'', Some ''0'')], operands = [''/dev/ubi_ctrl'']\<rparr>"
  by (simp add: example_run_def getopt_eval)

lemma help_run_eq: "help_run = \<lparr>returns = [(CHR ''h'', None)], operands = []\<rparr>"
  by (simp add: help_run_def getopt_eval)

lemma short_o_run:
  "getopt_long [''ubiattach'', ''/dev/ubi_ctrl'', ''-m'', ''0'', ''-o'', ''0''] optstring long_options =
     \<lparr>returns = [(CHR ''m'', Some ''0''), (CHR ''o'', None)],
      operands = [''/dev/ubi_ctrl'', ''0'']\<rparr>"
  by (simp add: getopt_eval)

lemma long_o_run:
  "getopt_long [''ubiattach'', ''/dev/ubi_ctrl'', ''-m'', ''0'', ''--vid-hdr-offset=0'']
       optstring long_options =
     \<lparr>returns = [(CHR ''m'', Some ''0''), (CHR ''o'', Some ''0'')],
      operands = [''/dev/ubi_ctrl'']\<rparr>"
  by (simp add: getopt_eval)

lemma example_parse:
  "parse_opt (myargs L) example_run =
     (Returned 0,
      \<lparr>devn = UBI_DEV_NUM_AUTO L, mtdn = 0, vidoffs = 0, node = Some ''/dev/ubi_ctrl''\<rparr>, [])"
  by (simp add: example_run_eq parse_opt_def parse_opt_switch_def myargs_def strtoul_0)

lemma example_parse_ok: "parse_ok L example_run"
  by (simp add: parse_ok_def example_parse)

lemma example_parsed:
  "parsed L example_run =
     \<lparr>devn = UBI_DEV_NUM_AUTO L, mtdn = 0, vidoffs = 0, node = Some ''/dev/ubi_ctrl''\<rparr>"
  by (simp add: parsed_def example_parse)

lemma example_args_parse: "fst (parse_opt example_args example_run) = Returned 0"
  by (simp add: example_args_def example_parse)

lemma example_request:
  "request (example_libubi h e1 mj e2 e3) example_run =
     \<lparr>dev_num = - 1, mtd_num = 0, vid_hdr_offset = 0\<rparr>"
  by (simp add: request_def example_parsed example_libubi_def)

lemma example_attached:
  "attached (example_libubi h e1 mj e2 e3) example_run =
     (e2, \<lparr>dev_num = 3, mtd_num = 0, vid_hdr_offset = 0\<rparr>)"
  by (simp add: attached_def request_def example_parsed example_libubi_def)

lemma example_queried:
  "queried (example_libubi h e1 mj e2 e3) example_run =
     (e3, \<lparr>info_dev_num = 3, total_lebs = 1000, total_bytes = 129024000,
         avail_lebs = 996, avail_bytes = 128507904, leb_size = 129024\<rparr>)"
  by (simp add: queried_def example_attached) (simp add: example_libubi_def)

lemma example_fields:
  "libubi_open (example_libubi h e1 mj e2 e3) = h"
  "ubi_get_info (example_libubi h e1 mj e2 e3) x = (e1, \<lparr>ctrl_major = mj\<rparr>)"
  "UBI_DEV_NUM_AUTO (example_libubi h e1 mj e2 e3) = - 1"
  by (simp_all add: example_libubi_def)

lemma long_o_checked:
  "ubiattach L [''ubiattach'', ''/dev/ubi_ctrl'', ''-m'', ''0'', ''--vid-hdr-offset=0''] =
     (Returned (- 1), [Errmsg bad_vidoffs_msg [Arg_str ''0'']])"
  by (simp add: ubiattach_def long_o_run main_def parse_opt_def parse_opt_switch_def strtoul_0)

lemma strtoul_2048: "strtoul ''2048'' = (2048, [])"
  by (simp add: strtoul_eval)

lemma full_run_parse:
  "parse_opt (myargs L) full_run =
     (Returned 0,
      \<lparr>devn = 3, mtdn = 0, vidoffs = 2048, node = Some ''/dev/ubi_ctrl''\<rparr>, [])"
  by (simp add: full_run_def parse_opt_def parse_opt_switch_def myargs_def
      strtoul_0 strtoul_examples strtoul_2048)

lemma full_run_attach:
  "Call_ubi_attach_mtd 1 (Some ''/dev/ubi_ctrl'')
       \<lparr>dev_num = 3, mtd_num = 0, vid_hdr_offset = 2048\<rparr>
     \<in> set (snd (main (example_libubi 1 0 250 0 0) full_run))"
  by (simp add: main_ok parse_ok_def parsed_def request_def attached_def queried_def
      full_run_parse example_fields NULL_def)

lemma example_switch_m0:
  "parse_opt_switch a (CHR ''m'', Some ''0'') = Inr (a\<lparr>mtdn := 0\<rparr>)"
  by (simp add: parse_opt_switch_def strtoul_0)

lemma example_loop_m0:
  "parse_opt_loop a [(CHR ''m'', Some ''0'')] = Inr (a\<lparr>mtdn := 0\<rparr>)"
  by (simp add: example_switch_m0)

lemma example_bad_runs:
  "fst (main L \<lparr>returns = [(CHR ''m'', Some ''0'')], operands = []\<rparr>) \<noteq> Undefined_behaviour"
  "fst (main L \<lparr>returns = [(CHR ''m'', Some ''0'')],
      operands = [''/dev/ubi_ctrl'', ''/dev/ubi0'']\<rparr>) \<noteq> Undefined_behaviour"
  "fst (main L \<lparr>returns = [], operands = [''/dev/ubi_ctrl'']\<rparr>) \<noteq> Undefined_behaviour"
  by (simp_all add: main_def parse_opt_def example_switch_m0 myargs_def)

subsection \<open>Exits from \<^verbatim>\<open>parse_opt\<close>\<close>

lemma parse_opt_switch_exits:
  "parse_opt_switch a (CHR ''h'', arg) = Inl (Exited 0, a, help_events)"
  "parse_opt_switch a (CHR ''V'', arg) = Inl (Exited 0, a, version_events)"
  "unknown_key key \<Longrightarrow> parse_opt_switch a (key, arg) = Inl (Exited (- 1), a, unknown_events)"
  by (simp_all add: parse_opt_switch_def help_events_def version_events_def unknown_events_def
      unknown_key_def)

lemma parse_opt_switch_Exited:
  assumes "parse_opt_switch a (key, arg) = Inl (Exited s, a', out)"
  shows "a' = a \<and>
    (key = CHR ''h'' \<and> s = 0 \<and> out = help_events
     \<or> key = CHR ''V'' \<and> s = 0 \<and> out = version_events
     \<or> unknown_key key \<and> s = - 1 \<and> out = unknown_events)"
  using assms
  by (auto simp: parse_opt_switch_def Let_def help_events_def version_events_def
      unknown_events_def unknown_key_def split: prod.splits option.splits if_splits)

lemma parse_opt_loop_Exited:
  "parse_opt_loop a rs = Inl (Exited s, a', out) \<Longrightarrow>
     \<exists>pre key arg rs'. rs = pre @ (key, arg) # rs' \<and> parse_opt_loop a pre = Inr a' \<and>
       (key = CHR ''h'' \<and> s = 0 \<and> out = help_events
        \<or> key = CHR ''V'' \<and> s = 0 \<and> out = version_events
        \<or> unknown_key key \<and> s = - 1 \<and> out = unknown_events)"
proof (induction rs arbitrary: a)
  case Nil
  then show ?case by simp
next
  case (Cons r rs)
  obtain key arg where r: "r = (key, arg)" by (cases r)
  show ?case
  proof (cases "parse_opt_switch a r")
    case (Inl stop)
    with Cons.prems have sw: "parse_opt_switch a (key, arg) = Inl (Exited s, a', out)"
      by (simp add: r)
    from parse_opt_switch_Exited [OF sw]
    have "r # rs = [] @ (key, arg) # rs \<and> parse_opt_loop a [] = Inr a' \<and>
       (key = CHR ''h'' \<and> s = 0 \<and> out = help_events
        \<or> key = CHR ''V'' \<and> s = 0 \<and> out = version_events
        \<or> unknown_key key \<and> s = - 1 \<and> out = unknown_events)"
      by (simp add: r)
    then show ?thesis by blast
  next
    case (Inr a1)
    with Cons.prems have "parse_opt_loop a1 rs = Inl (Exited s, a', out)" by simp
    from Cons.IH [OF this] obtain pre k ar rs' where
      rs: "rs = pre @ (k, ar) # rs'" and lp: "parse_opt_loop a1 pre = Inr a'"
      and d: "k = CHR ''h'' \<and> s = 0 \<and> out = help_events
        \<or> k = CHR ''V'' \<and> s = 0 \<and> out = version_events
        \<or> unknown_key k \<and> s = - 1 \<and> out = unknown_events"
      by blast
    have "r # rs = (r # pre) @ (k, ar) # rs'" by (simp add: rs)
    moreover have "parse_opt_loop a (r # pre) = Inr a'" by (simp add: Inr lp)
    ultimately show ?thesis using d by blast
  qed
qed

lemma parse_opt_stops:
  assumes "parse_opt_loop a pre = Inr a1" and "parse_opt_switch a1 (key, arg) = Inl stop"
  shows "parse_opt a \<lparr>returns = pre @ (key, arg) # rs, operands = ops\<rparr> = stop"
  by (simp add: parse_opt_def parse_opt_loop_append [OF assms(1)] assms(2))

lemma main_Exited:
  "fst (main L g) = Exited s \<longleftrightarrow> fst (parse_opt (myargs L) g) = Exited s"
  "fst (parse_opt (myargs L) g) = Exited s \<Longrightarrow>
     main L g = (Exited s, snd (snd (parse_opt (myargs L) g)))"
  by (auto simp: main_def out_libubi_def Let_def split: prod.splits ending.splits if_splits)

lemma main_stops:
  assumes "returns g = pre @ (key, arg) # rs" and "parse_opt_loop (myargs L) pre = Inr a1"
  shows "(key = CHR ''h'' \<longrightarrow> main L g = (Exited 0, help_events))
       \<and> (key = CHR ''V'' \<longrightarrow> main L g = (Exited 0, version_events))
       \<and> (unknown_key key \<longrightarrow> main L g = (Exited (- 1), unknown_events))"
proof -
  have g: "g = \<lparr>returns = pre @ (key, arg) # rs, operands = operands g\<rparr>"
    using assms(1) by (cases g) simp
  have "main L g = (Exited s, out)"
    if "parse_opt_switch a1 (key, arg) = Inl (Exited s, a1, out)" for s out
    using parse_opt_stops [OF assms(2) that, of rs "operands g"] g
    by (simp add: main_def)
  with parse_opt_switch_exits(1) [where a = a1 and arg = arg]
    parse_opt_switch_exits(2) [where a = a1 and arg = arg]
    parse_opt_switch_exits(3) [where a = a1 and arg = arg and key = key]
  show ?thesis by blast
qed

lemma example_exit_runs:
  "fst (main L \<lparr>returns = [(CHR ''h'', None)], operands = []\<rparr>) \<noteq> Undefined_behaviour"
  "fst (main L \<lparr>returns = [(CHR ''m'', Some ''0''), (CHR ''V'', None)],
      operands = [''/dev/ubi_ctrl'', ''/dev/ubi0'']\<rparr>) \<noteq> Undefined_behaviour"
  "fst (main L \<lparr>returns = [(CHR ''?'', None)], operands = [''/dev/ubi_ctrl'']\<rparr>)
     \<noteq> Undefined_behaviour"
  by (simp_all add: main_def parse_opt_def parse_opt_switch_def strtoul_0 myargs_def)

subsection \<open>The check of a device number\<close>

text \<open>
  What lines 93 to 109 do with the argument of \<^verbatim>\<open>-d\<close> or \<^verbatim>\<open>-m\<close>: when \<^verbatim>\<open>parse_opt\<close>
  returns 0, the argument of every such option among the keys is not empty, was
  read by \<^verbatim>\<open>strtoul\<close> up to its end, and the \<^verbatim>\<open>int\<close> stored for it is not
  negative. When the loop comes to such an option and its argument has
  characters left behind the number, or has no number in it, or the \<^verbatim>\<open>int\<close>
  stored for it is negative, \<^verbatim>\<open>parse_opt\<close> writes the message for a bad UBI,
  respectively MTD, device number with the argument and returns -1. Otherwise
  the loop goes on with the value stored. The test is on the \<^verbatim>\<open>int\<close>, the low
  32 bits of what \<^verbatim>\<open>strtoul\<close> returns, not on the number written.
\<close>

lemma parse_opt_device_number:
  assumes "key = CHR ''d'' \<or> key = CHR ''m''"
  shows "(fst (parse_opt a g) = Returned 0 \<and> (key, arg) \<in> set (returns g) \<longrightarrow>
            (\<exists>s. arg = Some s \<and> s \<noteq> [] \<and> snd (strtoul s) = [] \<and> 0 \<le> sint (int_value s)))
       \<and> (parse_opt_loop a pre = Inr a1
          \<and> (snd (strtoul s) \<noteq> [] \<or> length (snd (strtoul s)) = length s \<or> sint (int_value s) < 0)
          \<longrightarrow> parse_opt a \<lparr>returns = pre @ (key, Some s) # rs, operands = ops\<rparr> =
                (Returned (- 1),
                 (if key = CHR ''d'' then a1\<lparr>devn := int_value s\<rparr> else a1\<lparr>mtdn := int_value s\<rparr>),
                 [Errmsg (if key = CHR ''d'' then bad_devn_msg else bad_mtdn_msg) [Arg_str s]]))
       \<and> (parse_opt_loop a pre = Inr a1
          \<and> snd (strtoul s) = [] \<and> length (snd (strtoul s)) \<noteq> length s \<and> 0 \<le> sint (int_value s)
          \<longrightarrow> parse_opt_loop a (pre @ (key, Some s) # rs) =
                parse_opt_loop
                  (if key = CHR ''d'' then a1\<lparr>devn := int_value s\<rparr> else a1\<lparr>mtdn := int_value s\<rparr>) rs)"
proof (intro conjI impI)
  assume h: "fst (parse_opt a g) = Returned 0 \<and> (key, arg) \<in> set (returns g)"
  then obtain a' where lp: "parse_opt_loop a (returns g) = Inr a'"
    using parse_opt_Returned_0 by blast
  from parse_opt_loop_accepted [OF lp] h assms
  obtain s where s: "arg = Some s" "whole_number s" "0 \<le> sint (int_value s)"
    by fastforce
  from s(2) have "snd (strtoul s) = []" and "s \<noteq> []"
    by (auto simp: whole_number_def)
  with s show "\<exists>s. arg = Some s \<and> s \<noteq> [] \<and> snd (strtoul s) = [] \<and> 0 \<le> sint (int_value s)"
    by blast
next
  assume h: "parse_opt_loop a pre = Inr a1
    \<and> (snd (strtoul s) \<noteq> [] \<or> length (snd (strtoul s)) = length s \<or> sint (int_value s) < 0)"
  then have "parse_opt_loop a (pre @ (key, Some s) # rs) =
      Inl (Returned (- 1),
        (if key = CHR ''d'' then a1\<lparr>devn := int_value s\<rparr> else a1\<lparr>mtdn := int_value s\<rparr>),
        [Errmsg (if key = CHR ''d'' then bad_devn_msg else bad_mtdn_msg) [Arg_str s]])"
    using parse_opt_switch_device_number [OF assms, of a1 s]
    by (simp add: parse_opt_loop_append)
  then show "parse_opt a \<lparr>returns = pre @ (key, Some s) # rs, operands = ops\<rparr> =
      (Returned (- 1),
       (if key = CHR ''d'' then a1\<lparr>devn := int_value s\<rparr> else a1\<lparr>mtdn := int_value s\<rparr>),
       [Errmsg (if key = CHR ''d'' then bad_devn_msg else bad_mtdn_msg) [Arg_str s]])"
    by (simp add: parse_opt_def)
next
  assume h: "parse_opt_loop a pre = Inr a1
    \<and> snd (strtoul s) = [] \<and> length (snd (strtoul s)) \<noteq> length s \<and> 0 \<le> sint (int_value s)"
  then have lp: "parse_opt_loop a pre = Inr a1"
    and good: "\<not> (snd (strtoul s) \<noteq> [] \<or> length (snd (strtoul s)) = length s \<or> sint (int_value s) < 0)"
    by auto
  have sw: "parse_opt_switch a1 (key, Some s) =
      Inr (if key = CHR ''d'' then a1\<lparr>devn := int_value s\<rparr> else a1\<lparr>mtdn := int_value s\<rparr>)"
    unfolding parse_opt_switch_device_number [OF assms, of a1 s] using good by (rule if_not_P)
  show "parse_opt_loop a (pre @ (key, Some s) # rs) =
      parse_opt_loop
        (if key = CHR ''d'' then a1\<lparr>devn := int_value s\<rparr> else a1\<lparr>mtdn := int_value s\<rparr>) rs"
    unfolding parse_opt_loop_append [OF lp] parse_opt_loop.simps sw by simp
qed

lemma parse_opt_device_number_examples:
  "parse_opt example_args
     \<lparr>returns = [(CHR ''m'', Some ''0''), (CHR ''d'', Some ''12abc'')],
      operands = [''/dev/ubi_ctrl'']\<rparr> =
     (Returned (- 1), example_args\<lparr>mtdn := 0, devn := 12\<rparr>,
      [Errmsg bad_devn_msg [Arg_str ''12abc'']])
   \<and> parse_opt example_args
     \<lparr>returns = [(CHR ''m'', Some ''0''), (CHR ''m'', Some ''-5'')],
      operands = [''/dev/ubi_ctrl'']\<rparr> =
     (Returned (- 1), example_args\<lparr>mtdn := - 5\<rparr>, [Errmsg bad_mtdn_msg [Arg_str ''-5'']])
   \<and> parse_opt example_args
     \<lparr>returns = [(CHR ''m'', Some ''0''), (CHR ''d'', Some '''')],
      operands = [''/dev/ubi_ctrl'']\<rparr> =
     (Returned (- 1), example_args\<lparr>mtdn := 0, devn := 0\<rparr>, [Errmsg bad_devn_msg [Arg_str '''']])
   \<and> parse_opt_loop example_args [(CHR ''m'', Some ''0''), (CHR ''d'', Some ''3'')] =
     Inr (example_args\<lparr>mtdn := 0, devn := 3\<rparr>)
   \<and> snd (strtoul ''0'') = [] \<and> 0 \<le> sint (int_value ''0'')"
  using
    parse_opt_device_number [where key = "CHR ''d''" and a = example_args
      and pre = "[(CHR ''m'', Some ''0'')]" and ?a1.0 = "example_args\<lparr>mtdn := 0\<rparr>"
      and s = "''12abc''" and rs = "[]" and ops = "[''/dev/ubi_ctrl'']"
      and g = example_run and arg = "Some ''0''"]
    parse_opt_device_number [where key = "CHR ''m''" and a = example_args
      and pre = "[(CHR ''m'', Some ''0'')]" and ?a1.0 = "example_args\<lparr>mtdn := 0\<rparr>"
      and s = "''-5''" and rs = "[]" and ops = "[''/dev/ubi_ctrl'']"
      and g = example_run and arg = "Some ''0''"]
    parse_opt_device_number [where key = "CHR ''d''" and a = example_args
      and pre = "[(CHR ''m'', Some ''0'')]" and ?a1.0 = "example_args\<lparr>mtdn := 0\<rparr>"
      and s = "''''" and rs = "[]" and ops = "[''/dev/ubi_ctrl'']"
      and g = example_run and arg = "Some ''0''"]
    parse_opt_device_number [where key = "CHR ''d''" and a = example_args
      and pre = "[(CHR ''m'', Some ''0'')]" and ?a1.0 = "example_args\<lparr>mtdn := 0\<rparr>"
      and s = "''3''" and rs = "[]" and ops = "[''/dev/ubi_ctrl'']"
      and g = example_run and arg = "Some ''0''"]
    parse_opt_device_number [where key = "CHR ''m''" and a = example_args
      and pre = "[(CHR ''m'', Some ''0'')]" and ?a1.0 = "example_args\<lparr>mtdn := 0\<rparr>"
      and s = "''3''" and rs = "[]" and ops = "[''/dev/ubi_ctrl'']"
      and g = example_run and arg = "Some ''0''"]
  by (simp add: parse_opt_switch_def strtoul_examples strtoul_0 int_value_def
      example_args_parse example_run_eq)

subsection \<open>The claims\<close>



text \<open>
  Claim C2. When a call into libubi fails (\<^verbatim>\<open>libubi_open\<close> returns \<^verbatim>\<open>NULL\<close>, or
  \<^verbatim>\<open>ubi_get_info\<close>, \<^verbatim>\<open>ubi_attach_mtd\<close> or \<^verbatim>\<open>ubi_get_dev_info1\<close> returns
  non-zero), the program writes an error message that names the failed step,
  with \<^verbatim>\<open>perror\<close> on the function's name, and \<^verbatim>\<open>main\<close> returns -1; none of the
  later steps is made. The whole run is given for each of the four failures.
\<close>

theorem main_error_exits:
  assumes "parse_ok L g"
  shows
   "(libubi_open L = NULL \<longrightarrow>
       main L g = (Returned (- 1),
         [Call_libubi_open, Errmsg ''cannot open libubi'' [], Perror ''libubi_open'']))
    \<and> (libubi_open L \<noteq> NULL \<and> fst (ubi_get_info L (libubi_open L)) \<noteq> 0 \<longrightarrow>
       main L g = (Returned (- 1),
         [Call_libubi_open, Call_ubi_get_info (libubi_open L),
          Errmsg ''cannot get UBI information'' [], Perror ''ubi_get_info'',
          Call_libubi_close (libubi_open L)]))
    \<and> (libubi_open L \<noteq> NULL \<and> fst (ubi_get_info L (libubi_open L)) = 0
        \<and> ctrl_major (snd (ubi_get_info L (libubi_open L))) \<noteq> - 1
        \<and> fst (attached L g) \<noteq> 0 \<longrightarrow>
       main L g = (Returned (- 1),
         [Call_libubi_open, Call_ubi_get_info (libubi_open L),
          Call_ubi_attach_mtd (libubi_open L) (node (parsed L g)) (request L g),
          Errmsg ''cannot attach mtd%d'' [Arg_int (mtdn (parsed L g))], Perror ''ubi_attach_mtd'',
          Call_libubi_close (libubi_open L)]))
    \<and> (libubi_open L \<noteq> NULL \<and> fst (ubi_get_info L (libubi_open L)) = 0
        \<and> ctrl_major (snd (ubi_get_info L (libubi_open L))) \<noteq> - 1
        \<and> fst (attached L g) = 0 \<and> fst (queried L g) \<noteq> 0 \<longrightarrow>
       main L g = (Returned (- 1),
         [Call_libubi_open, Call_ubi_get_info (libubi_open L),
          Call_ubi_attach_mtd (libubi_open L) (node (parsed L g)) (request L g),
          Call_ubi_get_dev_info1 (libubi_open L) (dev_num (snd (attached L g))),
          Errmsg ''cannot get information about newly created UBI device'' [],
          Perror ''ubi_get_dev_info1'',
          Call_libubi_close (libubi_open L)]))"
  by (simp add: main_ok [OF assms])

theorem main_error_exits_witness:
  "main (example_libubi NULL 0 250 0 0) example_run =
     (Returned (- 1), [Call_libubi_open, Errmsg ''cannot open libubi'' [], Perror ''libubi_open''])
   \<and> main (example_libubi 1 (- 1) 250 0 0) example_run =
     (Returned (- 1),
      [Call_libubi_open, Call_ubi_get_info 1,
       Errmsg ''cannot get UBI information'' [], Perror ''ubi_get_info'', Call_libubi_close 1])
   \<and> main (example_libubi 1 0 250 (- 1) 0) example_run =
     (Returned (- 1),
      [Call_libubi_open, Call_ubi_get_info 1,
       Call_ubi_attach_mtd 1 (Some ''/dev/ubi_ctrl'')
         \<lparr>dev_num = - 1, mtd_num = 0, vid_hdr_offset = 0\<rparr>,
       Errmsg ''cannot attach mtd%d'' [Arg_int 0], Perror ''ubi_attach_mtd'', Call_libubi_close 1])
   \<and> main (example_libubi 1 0 250 0 (- 1)) example_run =
     (Returned (- 1),
      [Call_libubi_open, Call_ubi_get_info 1,
       Call_ubi_attach_mtd 1 (Some ''/dev/ubi_ctrl'')
         \<lparr>dev_num = - 1, mtd_num = 0, vid_hdr_offset = 0\<rparr>,
       Call_ubi_get_dev_info1 1 3,
       Errmsg ''cannot get information about newly created UBI device'' [],
       Perror ''ubi_get_dev_info1'', Call_libubi_close 1])"
  using main_error_exits [OF example_parse_ok, of "example_libubi NULL 0 250 0 0"]
    main_error_exits [OF example_parse_ok, of "example_libubi 1 (- 1) 250 0 0"]
    main_error_exits [OF example_parse_ok, of "example_libubi 1 0 250 (- 1) 0"]
    main_error_exits [OF example_parse_ok, of "example_libubi 1 0 250 0 (- 1)"]
  by (simp add: example_fields example_attached example_queried example_request example_parsed
      NULL_def)

text \<open>
  Claim C3. The attach request passes the parsed arguments through unchanged:
  whenever \<^verbatim>\<open>ubi_attach_mtd\<close> is called, \<^verbatim>\<open>req.dev_num\<close> is the value of the last
  \<^verbatim>\<open>-d\<close>, or \<^verbatim>\<open>UBI_DEV_NUM_AUTO\<close> if there was none; \<^verbatim>\<open>req.mtd_num\<close> is the value of
  the last \<^verbatim>\<open>-m\<close>, which was given; \<^verbatim>\<open>req.vid_hdr_offset\<close> is the value of the last
  \<^verbatim>\<open>-o\<close>, or 0 if there was none; and the node is the single operand. The value
  of an option is the \<^verbatim>\<open>int\<close> that \<^verbatim>\<open>strtoul\<close> reads from its argument
  (\<open>int_value\<close>; for a decimal numeral below \<open>2\<^sup>3\<^sup>1\<close> it is the number written,
  \<open>int_value_decimal\<close>).
\<close>

theorem attach_request_pass_through:
  assumes "Call_ubi_attach_mtd h nd req \<in> set (snd (main L g))"
  shows "dev_num req = devn (parsed L g) \<and> mtd_num req = mtdn (parsed L g)
       \<and> vid_hdr_offset req = vidoffs (parsed L g)
       \<and> dev_num req =
           (case option_value CHR ''d'' (returns g) of
              None \<Rightarrow> UBI_DEV_NUM_AUTO L
            | Some s \<Rightarrow> int_value s)
       \<and> (\<exists>s. option_value CHR ''m'' (returns g) = Some s \<and> mtd_num req = int_value s)
       \<and> vid_hdr_offset req =
           (case option_value CHR ''o'' (returns g) of
              None \<Rightarrow> 0
            | Some s \<Rightarrow> int_value s)
       \<and> nd = Some (hd (operands g))"
proof -
  from attach_in_main [OF assms] have ok: "parse_ok L g"
    and nd: "nd = node (parsed L g)" and req: "req = request L g" by simp_all
  from parse_ok_loop [OF ok] obtain a' where
    lp: "parse_opt_loop (myargs L) (returns g) = Inr a'"
    and pa: "parsed L g = a'\<lparr>node := Some (hd (operands g))\<rparr>"
    and m: "mtdn a' \<noteq> - 1" by blast
  have init: "mtdn (myargs L) = - 1" by (simp add: myargs_def)
  from parse_opt_loop_mtdn [OF lp init] m
  obtain s where s: "option_value CHR ''m'' (returns g) = Some s" by auto
  from parse_opt_loop_values [OF lp] s show ?thesis
    by (simp add: req nd request_def pa myargs_def split: option.splits)
qed

theorem attach_request_pass_through_witness:
  "Call_ubi_attach_mtd 1 (Some ''/dev/ubi_ctrl'')
       \<lparr>dev_num = 3, mtd_num = 0, vid_hdr_offset = 2048\<rparr>
     \<in> set (snd (main (example_libubi 1 0 250 0 0) full_run))
   \<and> int_value ''3'' = 3 \<and> int_value ''0'' = 0 \<and> int_value ''2048'' = 2048"
  using attach_request_pass_through [OF full_run_attach] full_run_attach
  by (simp add: full_run_def)

text \<open>
  Claim C4. An argument of \<^verbatim>\<open>-o\<close> that is not a positive number is to be
  answered with the message for a bad VID header offset and the return value
  -1. The option string \<^verbatim>\<open>"m:d:ohV"\<close> has no colon behind \<^verbatim>\<open>o\<close>, unlike
  \<^verbatim>\<open>m\<close> and \<^verbatim>\<open>d\<close> and unlike the entry of \<^verbatim>\<open>vid-hdr-offset\<close> in the table of
  long options: for \<^verbatim>\<open>ubiattach /dev/ubi_ctrl -m 0 -o 0\<close> the key \<^verbatim>\<open>o\<close> comes
  with a null \<^verbatim>\<open>optarg\<close>, which \<^verbatim>\<open>parse_opt\<close> hands to \<^verbatim>\<open>strtoul\<close>. The run ends
  there, without a message. (The long form does come with its argument and
  reaches the check of lines 113 to 116: \<open>long_o_checked\<close>.)
\<close>

theorem short_o_undefined_behaviour:
  "parse_opt (myargs L)
     (getopt_long [''ubiattach'', ''/dev/ubi_ctrl'', ''-m'', ''0'', ''-o'', ''0'']
        optstring long_options) =
     (Undefined_behaviour, (myargs L)\<lparr>mtdn := 0\<rparr>, [])
   \<and> ubiattach L [''ubiattach'', ''/dev/ubi_ctrl'', ''-m'', ''0'', ''-o'', ''0''] =
     (Undefined_behaviour, [])"
  by (simp add: ubiattach_def short_o_run main_def parse_opt_def parse_opt_switch_def strtoul_0)

text \<open>
  Claim C5. An argument of \<^verbatim>\<open>-d\<close> or \<^verbatim>\<open>-m\<close> with a negative value is to be
  answered with the message for a bad device number and the return value -1.
  The code stores the \<^verbatim>\<open>unsigned long\<close> of \<^verbatim>\<open>strtoul\<close> in an \<^verbatim>\<open>int\<close> and tests
  that for being negative. For \<^verbatim>\<open>ubiattach /dev/ubi_ctrl -m 0 -d -4294967295\<close>
  \<^verbatim>\<open>strtoul\<close> returns \<open>2\<^sup>6\<^sup>4 - 4294967295\<close>, whose low 32 bits are 1: the argument
  passes the test, \<^verbatim>\<open>parse_opt\<close> returns 0 and the device number is 1.
\<close>

theorem negative_device_number_accepted:
  "int_value ''-4294967295'' = 1
   \<and> parse_opt (myargs L)
       (getopt_long [''ubiattach'', ''/dev/ubi_ctrl'', ''-m'', ''0'', ''-d'', ''-4294967295'']
          optstring long_options) =
     (Returned 0,
      \<lparr>devn = 1, mtdn = 0, vidoffs = 0, node = Some ''/dev/ubi_ctrl''\<rparr>, [])"
proof -
  have s: "strtoul ''-4294967295'' = (- 4294967295, [])"
    by (simp add: strtoul_eval)
  have g: "getopt_long [''ubiattach'', ''/dev/ubi_ctrl'', ''-m'', ''0'', ''-d'', ''-4294967295'']
      optstring long_options =
    \<lparr>returns = [(CHR ''m'', Some ''0''), (CHR ''d'', Some ''-4294967295'')],
     operands = [''/dev/ubi_ctrl'']\<rparr>"
    by (simp add: getopt_eval)
  have v: "int_value ''-4294967295'' = 1"
    by (simp add: int_value_def s)
  have "parse_opt_switch a (CHR ''d'', Some ''-4294967295'') = Inr (a\<lparr>devn := 1\<rparr>)" for a
    using v by (simp add: parse_opt_switch_def s int_value_def)
  then have "parse_opt (myargs L)
      \<lparr>returns = [(CHR ''m'', Some ''0''), (CHR ''d'', Some ''-4294967295'')],
       operands = [''/dev/ubi_ctrl'']\<rparr> =
     (Returned 0,
      \<lparr>devn = 1, mtdn = 0, vidoffs = 0, node = Some ''/dev/ubi_ctrl''\<rparr>, [])"
    by (simp add: parse_opt_def example_switch_m0 myargs_def)
  with v g show ?thesis by simp
qed

text \<open>
  Claim C6. On a run where every step succeeds, \<^verbatim>\<open>main\<close> returns 0 and prints, in
  this order: the number of the new device and its total count of erase blocks,
  its total size in bytes, its count of available erase blocks, its available
  size in bytes, and the size of an erase block; each of the three sizes goes
  through \<^verbatim>\<open>ubiutils_print_bytes\<close>, the first two with 0 and the last with 1 as
  second argument.
\<close>

theorem main_prints_dev_info:
  assumes "parse_ok L g" and "libubi_open L \<noteq> NULL"
    and "fst (ubi_get_info L (libubi_open L)) = 0"
    and "ctrl_major (snd (ubi_get_info L (libubi_open L))) \<noteq> - 1"
    and "fst (attached L g) = 0"
    and "ubi_get_dev_info1 L (libubi_open L) (dev_num (snd (attached L g))) = (0, d)"
  shows "fst (main L g) = Returned 0
     \<and> filter is_print (snd (main L g)) =
         [Printf ''UBI device number %d, total %d LEBs (''
            [Arg_int (info_dev_num d), Arg_int (total_lebs d)],
          Print_bytes (total_bytes d) 0,
          Printf ''), available %d LEBs ('' [Arg_int (avail_lebs d)],
          Print_bytes (avail_bytes d) 0,
          Printf ''), LEB size '' [],
          Print_bytes (scast (leb_size d)) 1,
          Printf ''\<newline>'' []]"
  using assms by (simp add: main_ok queried_def print_dev_info_def)

theorem main_prints_dev_info_witness:
  "fst (main (example_libubi 1 0 250 0 0) example_run) = Returned 0
   \<and> filter is_print (snd (main (example_libubi 1 0 250 0 0) example_run)) =
         [Printf ''UBI device number %d, total %d LEBs ('' [Arg_int 3, Arg_int 1000],
          Print_bytes 129024000 0,
          Printf ''), available %d LEBs ('' [Arg_int 996],
          Print_bytes 128507904 0,
          Printf ''), LEB size '' [],
          Print_bytes 129024 1,
          Printf ''\<newline>'' []]"
  using main_prints_dev_info [of "example_libubi 1 0 250 0 0" example_run
      "\<lparr>info_dev_num = 3, total_lebs = 1000, total_bytes = 129024000,
         avail_lebs = 996, avail_bytes = 128507904, leb_size = 129024\<rparr>"]
    example_queried [of 1 0 250 0 0]
  by (simp add: example_parse_ok example_fields example_attached queried_def NULL_def)

text \<open>
  Claim C7. After a successful attach, \<^verbatim>\<open>ubi_get_dev_info1\<close> is called once, for
  the device number that the request holds when \<^verbatim>\<open>ubi_attach_mtd\<close> has
  returned (libubi may have assigned it), and if that call succeeds the device
  number printed first is the one in the information it returned.
\<close>

theorem main_queries_assigned_device:
  assumes "parse_ok L g" and "libubi_open L \<noteq> NULL"
    and "fst (ubi_get_info L (libubi_open L)) = 0"
    and "ctrl_major (snd (ubi_get_info L (libubi_open L))) \<noteq> - 1"
    and "ubi_attach_mtd L (libubi_open L) (node (parsed L g)) (request L g) = (0, req')"
    and "ubi_get_dev_info1 L (libubi_open L) (dev_num req') = (e, d)"
  shows "filter is_query (snd (main L g)) = [Call_ubi_get_dev_info1 (libubi_open L) (dev_num req')]
       \<and> (e = 0 \<longrightarrow>
            hd (filter is_print (snd (main L g))) =
              Printf ''UBI device number %d, total %d LEBs (''
                [Arg_int (info_dev_num d), Arg_int (total_lebs d)])"
  using assms by (simp add: main_ok attached_def queried_def print_dev_info_def)

theorem main_queries_assigned_device_witness:
  "request (example_libubi 1 0 250 0 0) example_run =
     \<lparr>dev_num = - 1, mtd_num = 0, vid_hdr_offset = 0\<rparr>
   \<and> filter is_query (snd (main (example_libubi 1 0 250 0 0) example_run)) =
       [Call_ubi_get_dev_info1 1 3]
   \<and> hd (filter is_print (snd (main (example_libubi 1 0 250 0 0) example_run))) =
       Printf ''UBI device number %d, total %d LEBs ('' [Arg_int 3, Arg_int 1000]"
  using main_queries_assigned_device [of "example_libubi 1 0 250 0 0" example_run
      "\<lparr>dev_num = 3, mtd_num = 0, vid_hdr_offset = 0\<rparr>" 0
      "\<lparr>info_dev_num = 3, total_lebs = 1000, total_bytes = 129024000,
         avail_lebs = 996, avail_bytes = 128507904, leb_size = 129024\<rparr>"]
    example_attached [of 1 0 250 0 0] example_queried [of 1 0 250 0 0]
  by (simp add: example_parse_ok example_fields example_request attached_def queried_def NULL_def)

text \<open>
  Claim C8. When \<^verbatim>\<open>ubi_get_info\<close> succeeds but reports -1 as the major number of
  the control device, the program writes that attaching is not supported by
  the kernel, closes libubi and returns -1; \<^verbatim>\<open>ubi_attach_mtd\<close> is never called.
\<close>

theorem main_attach_unsupported:
  assumes "parse_ok L g" and "libubi_open L \<noteq> NULL"
    and "fst (ubi_get_info L (libubi_open L)) = 0"
    and "ctrl_major (snd (ubi_get_info L (libubi_open L))) = - 1"
  shows "main L g = (Returned (- 1),
           [Call_libubi_open, Call_ubi_get_info (libubi_open L),
            Errmsg ''MTD attach/detach feature is not supported by your kernel'' [],
            Call_libubi_close (libubi_open L)])
         \<and> Attach \<notin> set (steps (snd (main L g)))"
  using assms by (simp add: main_ok steps_def)

theorem main_attach_unsupported_witness:
  "main (example_libubi 1 0 (- 1) 0 0) example_run = (Returned (- 1),
     [Call_libubi_open, Call_ubi_get_info 1,
      Errmsg ''MTD attach/detach feature is not supported by your kernel'' [],
      Call_libubi_close 1])
   \<and> Attach \<notin> set (steps (snd (main (example_libubi 1 0 (- 1) 0 0) example_run)))"
  using main_attach_unsupported [of "example_libubi 1 0 (- 1) 0 0" example_run]
  by (simp add: example_parse_ok example_fields NULL_def steps_def)

text \<open>
  As stated, C9 fails for \<^verbatim>\<open>ubiattach -h\<close>: there is no operand and no \<^verbatim>\<open>-m\<close>,
  and the program prints the help texts and exits with 0, without an error
  message.
\<close>

theorem help_without_node_counterexample:
  "length (operands help_run) \<noteq> 1 \<and> CHR ''m'' \<notin> fst ` set (returns help_run)
   \<and> main (example_libubi 1 0 250 0 0) help_run =
       (Exited 0,
        [Fprintf_stderr ''%s\<newline>\<newline>'' [Arg_str doc],
         Fprintf_stderr ''%s\<newline>\<newline>'' [Arg_str usage],
         Fprintf_stderr ''%s\<newline>'' [Arg_str optionsstr]])"
  by (simp add: help_run_eq main_def parse_opt_def parse_opt_switch_def)

text \<open>
  Claim C9, amended. When the command line has no operand or more than one, or
  no \<^verbatim>\<open>-m\<close>, and the run does not end in undefined behaviour, then the program
  makes no call into libubi, writes to \<^verbatim>\<open>stderr\<close> only, and ends either with
  \<^verbatim>\<open>main\<close> returning -1 or by an \<^verbatim>\<open>exit\<close> inside \<^verbatim>\<open>parse_opt\<close>. If \<^verbatim>\<open>parse_opt\<close>
  returns, it returns -1 after one error message, which is all the run writes;
  if the loop over the options runs to its end, the message is the one for the
  missing node, for more than one node, or for the missing \<^verbatim>\<open>-m\<close>, in this order
  of precedence. When the options before it were accepted, \<^verbatim>\<open>-h\<close> prints the
  three help texts and exits with 0, \<^verbatim>\<open>-V\<close> prints the version and exits with
  0, and an option that is not recognised prints the hint at \<^verbatim>\<open>-h\<close> and exits
  with -1; and the program exits only in one of these three ways.
\<close>

theorem parse_opt_requires_node_and_mtdn:
  assumes "length (operands g) \<noteq> 1 \<or> CHR ''m'' \<notin> fst ` set (returns g)"
    and "fst (main L g) \<noteq> Undefined_behaviour"
  shows "steps (snd (main L g)) = []
       \<and> (\<forall>ev\<in>set (snd (main L g)). is_stderr ev)
       \<and> fst (main L g) \<noteq> Returned 0
       \<and> (\<forall>r. fst (parse_opt (myargs L) g) = Returned r \<longrightarrow>
             r = - 1 \<and> fst (main L g) = Returned (- 1)
             \<and> (\<exists>msg as. snd (snd (parse_opt (myargs L) g)) = [Errmsg msg as]
                          \<and> snd (main L g) = [Errmsg msg as]))
       \<and> (\<forall>a'. parse_opt_loop (myargs L) (returns g) = Inr a' \<longrightarrow>
             main L g =
               (Returned (- 1),
                [Errmsg (if length (operands g) = 0 then no_node_msg
                         else if length (operands g) \<noteq> 1 then many_nodes_msg
                         else no_mtdn_msg) []]))
       \<and> (\<forall>pre key arg rs a1.
             returns g = pre @ (key, arg) # rs \<and> parse_opt_loop (myargs L) pre = Inr a1 \<longrightarrow>
               (key = CHR ''h'' \<longrightarrow> main L g = (Exited 0, help_events))
             \<and> (key = CHR ''V'' \<longrightarrow> main L g = (Exited 0, version_events))
             \<and> (unknown_key key \<longrightarrow> main L g = (Exited (- 1), unknown_events)))
       \<and> (\<forall>s. fst (main L g) = Exited s \<longrightarrow>
             (\<exists>pre key arg rs a1.
                returns g = pre @ (key, arg) # rs \<and> parse_opt_loop (myargs L) pre = Inr a1
                \<and> (key = CHR ''h'' \<or> key = CHR ''V'' \<or> unknown_key key)))
       \<and> (fst (main L g) = Returned (- 1) \<or> (\<exists>s. fst (main L g) = Exited s))"
proof -
  have nok: "\<not> parse_ok L g" using assms(1) by (rule not_parse_ok)
  note q = main_not_ok_quiet [OF nok]
  have r: "r = - 1 \<and> fst (main L g) = Returned (- 1)
      \<and> (\<exists>msg as. snd (snd (parse_opt (myargs L) g)) = [Errmsg msg as]
                   \<and> snd (main L g) = [Errmsg msg as])"
    if "fst (parse_opt (myargs L) g) = Returned r" for r
  proof -
    from that nok have "r \<noteq> 0" by (auto simp: parse_ok_def)
    from parse_opt_Returned [OF that this] main_not_ok [OF nok] that
    show ?thesis by simp
  qed
  have l: "main L g =
      (Returned (- 1),
       [Errmsg (if length (operands g) = 0 then no_node_msg
                else if length (operands g) \<noteq> 1 then many_nodes_msg
                else no_mtdn_msg) []])"
    if lp: "parse_opt_loop (myargs L) (returns g) = Inr a'" for a'
  proof -
    have "length (operands g) = 1 \<Longrightarrow> mtdn a' = - 1"
      using nok lp by (auto simp: parse_ok_def parse_opt_def split: if_splits)
    then show ?thesis
      by (auto simp: main_def parse_opt_def lp no_node_msg_def many_nodes_msg_def no_mtdn_msg_def)
  qed
  have f: "(key = CHR ''h'' \<longrightarrow> main L g = (Exited 0, help_events))
       \<and> (key = CHR ''V'' \<longrightarrow> main L g = (Exited 0, version_events))
       \<and> (unknown_key key \<longrightarrow> main L g = (Exited (- 1), unknown_events))"
    if "returns g = pre @ (key, arg) # rs \<and> parse_opt_loop (myargs L) pre = Inr a1"
    for pre key arg rs a1
    using main_stops [of g pre key arg rs L a1] that by blast
  have e: "\<exists>pre key arg rs a1.
      returns g = pre @ (key, arg) # rs \<and> parse_opt_loop (myargs L) pre = Inr a1
      \<and> (key = CHR ''h'' \<or> key = CHR ''V'' \<or> unknown_key key)"
    if "fst (main L g) = Exited s" for s
  proof -
    from that have "fst (parse_opt (myargs L) g) = Exited s" by (simp add: main_Exited(1))
    then obtain a' out where "parse_opt_loop (myargs L) (returns g) = Inl (Exited s, a', out)"
      by (auto simp: parse_opt_def split: sum.splits if_splits)
    from parse_opt_loop_Exited [OF this] show ?thesis by blast
  qed
  have t: "fst (main L g) = Returned (- 1) \<or> (\<exists>s. fst (main L g) = Exited s)"
  proof (cases "fst (main L g)")
    case (Returned v)
    then have "fst (parse_opt (myargs L) g) = Returned v \<or> (\<exists>w. fst (parse_opt (myargs L) g) = Returned w)"
      using main_not_ok(2) [OF nok] by (auto split: ending.splits)
    then obtain w where "fst (parse_opt (myargs L) g) = Returned w" by blast
    from r [OF this] show ?thesis by simp
  next
    case (Exited s)
    then show ?thesis by simp
  next
    case Undefined_behaviour
    with assms(2) show ?thesis by simp
  qed
  from q(1) q(5) q(4) r l f e t show ?thesis by blast
qed

theorem parse_opt_requires_node_and_mtdn_witness:
  "main (example_libubi 1 0 250 0 0) \<lparr>returns = [(CHR ''m'', Some ''0'')], operands = []\<rparr> =
     (Returned (- 1), [Errmsg no_node_msg []])
   \<and> main (example_libubi 1 0 250 0 0)
       \<lparr>returns = [(CHR ''m'', Some ''0'')], operands = [''/dev/ubi_ctrl'', ''/dev/ubi0'']\<rparr> =
     (Returned (- 1), [Errmsg many_nodes_msg []])
   \<and> main (example_libubi 1 0 250 0 0) \<lparr>returns = [], operands = [''/dev/ubi_ctrl'']\<rparr> =
     (Returned (- 1), [Errmsg no_mtdn_msg []])
   \<and> main (example_libubi 1 0 250 0 0) \<lparr>returns = [(CHR ''h'', None)], operands = []\<rparr> =
     (Exited 0, help_events)
   \<and> main (example_libubi 1 0 250 0 0)
       \<lparr>returns = [(CHR ''m'', Some ''0''), (CHR ''V'', None)],
        operands = [''/dev/ubi_ctrl'', ''/dev/ubi0'']\<rparr> =
     (Exited 0, version_events)
   \<and> main (example_libubi 1 0 250 0 0)
       \<lparr>returns = [(CHR ''?'', None)], operands = [''/dev/ubi_ctrl'']\<rparr> =
     (Exited (- 1), unknown_events)"
proof -
  let ?L = "example_libubi 1 0 250 0 0"
  let ?g1 = "\<lparr>returns = [(CHR ''m'', Some ''0'')], operands = []\<rparr>"
  let ?g2 = "\<lparr>returns = [(CHR ''m'', Some ''0'')],
      operands = [''/dev/ubi_ctrl'', ''/dev/ubi0'']\<rparr>"
  let ?g3 = "\<lparr>returns = [], operands = [''/dev/ubi_ctrl'']\<rparr>"
  let ?g4 = "\<lparr>returns = [(CHR ''h'', None)], operands = []\<rparr>"
  let ?g5 = "\<lparr>returns = [(CHR ''m'', Some ''0''), (CHR ''V'', None)],
      operands = [''/dev/ubi_ctrl'', ''/dev/ubi0'']\<rparr>"
  let ?g6 = "\<lparr>returns = [(CHR ''?'', None)], operands = [''/dev/ubi_ctrl'']\<rparr>"
  have h1: "length (operands ?g1) \<noteq> 1 \<or> CHR ''m'' \<notin> fst ` set (returns ?g1)" by simp
  have h2: "length (operands ?g2) \<noteq> 1 \<or> CHR ''m'' \<notin> fst ` set (returns ?g2)" by simp
  have h3: "length (operands ?g3) \<noteq> 1 \<or> CHR ''m'' \<notin> fst ` set (returns ?g3)" by simp
  have h4: "length (operands ?g4) \<noteq> 1 \<or> CHR ''m'' \<notin> fst ` set (returns ?g4)" by simp
  have h5: "length (operands ?g5) \<noteq> 1 \<or> CHR ''m'' \<notin> fst ` set (returns ?g5)" by simp
  have h6: "length (operands ?g6) \<noteq> 1 \<or> CHR ''m'' \<notin> fst ` set (returns ?g6)" by simp
  have l1: "parse_opt_loop (myargs ?L) (returns ?g1) = Inr ((myargs ?L)\<lparr>mtdn := 0\<rparr>)"
    by (simp add: example_switch_m0)
  have l2: "parse_opt_loop (myargs ?L) (returns ?g2) = Inr ((myargs ?L)\<lparr>mtdn := 0\<rparr>)"
    by (simp add: example_switch_m0)
  have l3: "parse_opt_loop (myargs ?L) (returns ?g3) = Inr (myargs ?L)"
    by simp
  have p4: "returns ?g4 = [] @ (CHR ''h'', None) # []
      \<and> parse_opt_loop (myargs ?L) [] = Inr (myargs ?L)" by simp
  have p5: "returns ?g5 = [(CHR ''m'', Some ''0'')] @ (CHR ''V'', None) # []
      \<and> parse_opt_loop (myargs ?L) [(CHR ''m'', Some ''0'')] = Inr ((myargs ?L)\<lparr>mtdn := 0\<rparr>)"
    by (simp add: example_switch_m0)
  have p6: "returns ?g6 = [] @ (CHR ''?'', None) # []
      \<and> parse_opt_loop (myargs ?L) [] = Inr (myargs ?L)" by simp
  have u: "unknown_key CHR ''?''" by (simp add: unknown_key_def)
  note t1 = parse_opt_requires_node_and_mtdn [OF h1 example_bad_runs(1) [of ?L]]
  note t2 = parse_opt_requires_node_and_mtdn [OF h2 example_bad_runs(2) [of ?L]]
  note t3 = parse_opt_requires_node_and_mtdn [OF h3 example_bad_runs(3) [of ?L]]
  note t4 = parse_opt_requires_node_and_mtdn [OF h4 example_exit_runs(1) [of ?L]]
  note t5 = parse_opt_requires_node_and_mtdn [OF h5 example_exit_runs(2) [of ?L]]
  note t6 = parse_opt_requires_node_and_mtdn [OF h6 example_exit_runs(3) [of ?L]]
  note m1 = t1 [THEN conjunct2, THEN conjunct2, THEN conjunct2, THEN conjunct2, THEN conjunct1,
      rule_format, OF l1]
  note m2 = t2 [THEN conjunct2, THEN conjunct2, THEN conjunct2, THEN conjunct2, THEN conjunct1,
      rule_format, OF l2]
  note m3 = t3 [THEN conjunct2, THEN conjunct2, THEN conjunct2, THEN conjunct2, THEN conjunct1,
      rule_format, OF l3]
  note m4 = t4 [THEN conjunct2, THEN conjunct2, THEN conjunct2, THEN conjunct2, THEN conjunct2,
      THEN conjunct1, THEN spec, THEN spec, THEN spec, THEN spec, THEN spec, THEN mp, OF p4]
  note m5 = t5 [THEN conjunct2, THEN conjunct2, THEN conjunct2, THEN conjunct2, THEN conjunct2,
      THEN conjunct1, THEN spec, THEN spec, THEN spec, THEN spec, THEN spec, THEN mp, OF p5]
  note m6 = t6 [THEN conjunct2, THEN conjunct2, THEN conjunct2, THEN conjunct2, THEN conjunct2,
      THEN conjunct1, THEN spec, THEN spec, THEN spec, THEN spec, THEN spec, THEN mp, OF p6]
  have "main ?L ?g1 = (Returned (- 1), [Errmsg no_node_msg []])"
    unfolding m1 by simp
  moreover have "main ?L ?g2 = (Returned (- 1), [Errmsg many_nodes_msg []])"
    unfolding m2 by simp
  moreover have "main ?L ?g3 = (Returned (- 1), [Errmsg no_mtdn_msg []])"
    unfolding m3 by simp
  moreover have "main ?L ?g4 = (Exited 0, help_events)"
    using m4 [THEN conjunct1] by (rule mp) simp
  moreover have "main ?L ?g5 = (Exited 0, version_events)"
    using m5 [THEN conjunct2, THEN conjunct1] by (rule mp) simp
  moreover have "main ?L ?g6 = (Exited (- 1), unknown_events)"
    using m6 [THEN conjunct2, THEN conjunct2] u by (rule mp)
  ultimately show ?thesis by (intro conjI)
qed

text \<open>
  Claim C10. When \<^verbatim>\<open>libubi_open\<close> was called and returned a handle,
  \<^verbatim>\<open>libubi_close\<close> is called exactly once, on that handle, as the last event of
  the run, and \<^verbatim>\<open>main\<close> then returns (0 or -1); the handle was opened once.
\<close>

theorem main_closes_libubi:
  assumes "Call_libubi_open \<in> set (snd (main L g))" and "libubi_open L \<noteq> NULL"
  shows "filter is_close (snd (main L g)) = [Call_libubi_close (libubi_open L)]
       \<and> last (snd (main L g)) = Call_libubi_close (libubi_open L)
       \<and> filter is_open (snd (main L g)) = [Call_libubi_open]
       \<and> (fst (main L g) = Returned 0 \<or> fst (main L g) = Returned (- 1))"
  unfolding main_ok [OF open_in_main [OF assms(1)]]
  using assms(2) by (simp add: print_dev_info_def)

theorem main_closes_libubi_witness:
  "filter is_close (snd (main (example_libubi 1 0 250 0 0) example_run)) = [Call_libubi_close 1]
   \<and> last (snd (main (example_libubi 1 0 250 0 0) example_run)) = Call_libubi_close 1
   \<and> fst (main (example_libubi 1 0 250 0 0) example_run) = Returned 0
   \<and> filter is_close (snd (main (example_libubi 1 0 250 (- 1) 0) example_run)) = [Call_libubi_close 1]
   \<and> last (snd (main (example_libubi 1 0 250 (- 1) 0) example_run)) = Call_libubi_close 1
   \<and> fst (main (example_libubi 1 0 250 (- 1) 0) example_run) = Returned (- 1)"
  using main_closes_libubi [of "example_libubi 1 0 250 0 0" example_run]
    main_closes_libubi [of "example_libubi 1 0 250 (- 1) 0" example_run]
  by (simp add: main_ok example_parse_ok example_fields example_attached example_queried
      NULL_def print_dev_info_def)

end
